theory Spec2Isabelle
  imports Main "HOL-Library.Word"
begin

unbundle bit_operations_syntax

section \<open>Machine integer types\<close>

type_synonym u8 = "8 word"
type_synonym u16 = "16 word"
type_synonym u32 = "32 word"
type_synonym u64 = "64 word"

section \<open>Sequence arithmetic (ReliableBuffer.h)\<close>

text \<open>
  \<^verbatim>\<open>SequenceGreaterThan(uint16_t s1, uint16_t s2)\<close>.  The two subtractions are
  carried out on \<^verbatim>\<open>int\<close> after integer promotion, so they are modelled on
  \<^typ>\<open>int\<close> through \<^const>\<open>uint\<close>.
\<close>

definition SequenceGreaterThan :: "u16 \<Rightarrow> u16 \<Rightarrow> bool" where
  "SequenceGreaterThan s1 s2 =
     ((s1 > s2 \<and> uint s1 - uint s2 \<le> 32768) \<or>
      (s1 < s2 \<and> uint s2 - uint s1 > 32768))"

definition SequenceLessThan :: "u16 \<Rightarrow> u16 \<Rightarrow> bool" where
  "SequenceLessThan s1 s2 = SequenceGreaterThan s2 s1"

section \<open>Bit counting helpers (SerialiseBit.hpp)\<close>

text \<open>
  \<^verbatim>\<open>std::countl_zero\<close> on a 64-bit value: the number of zero bits above the
  highest set bit, 64 for the value 0.  \<open>countl_zero_from n x\<close> scans the bits
  \<open>n - 1, n - 2, \<dots>, 0\<close> of \<open>x\<close>.
\<close>

fun countl_zero_from :: "nat \<Rightarrow> u64 \<Rightarrow> nat" where
  "countl_zero_from 0 x = 0"
| "countl_zero_from (Suc n) x = (if bit x n then 0 else Suc (countl_zero_from n x))"

definition countl_zero :: "u64 \<Rightarrow> nat" where
  "countl_zero x = countl_zero_from 64 x"

definition BitsRequired :: "u64 \<Rightarrow> u64 \<Rightarrow> nat" where
  "BitsRequired mn mx = (if mn \<ge> mx then 0 else 64 - countl_zero (mx - mn))"

text \<open>
  \<^verbatim>\<open>GetRelativeSequenceEncodingBits\<close>.  \<open>a\<close>, \<open>b\<close> and \<open>difference\<close> are
  \<^verbatim>\<open>std::uint32_t\<close> in the source; the last line returns
  \<^verbatim>\<open>Constants::bits_per_uint32_t\<close>, which is 32.
\<close>

definition GetRelativeSequenceEncodingBits :: "u16 \<Rightarrow> u16 \<Rightarrow> nat" where
  "GetRelativeSequenceEncodingBits first_sequence second_sequence =
     (let wrap_around = (ucast (65535 :: u16) :: u32) + 1;
          a = (ucast first_sequence :: u32);
          b = (ucast second_sequence :: u32) +
              (if first_sequence \<ge> second_sequence then wrap_around else 0);
          difference = b - a
      in if difference = 1 then 1
         else if difference < 6 then 2 + BitsRequired 2 5
         else if difference < 22 then 3 + BitsRequired 6 21
         else if difference < 278 then 4 + BitsRequired 22 277
         else if difference < 4374 then 5 + BitsRequired 278 4373
         else if difference < 69910 then 6 + BitsRequired 4374 69909
         else 32)"

section \<open>The sliding sequence buffer (ReliableBuffer.h)\<close>

text \<open>
  \<^verbatim>\<open>ReliableBuffer<T, max_element_number, connection_count>\<close> holds three flat
  arrays shared by all connections.  The template parameter \<open>max_element_number\<close>
  is passed to every operation as the argument \<open>N\<close>.  A returned \<^verbatim>\<open>T*\<close> is
  modelled by the flat index of the slot it points to, \<^verbatim>\<open>nullptr\<close> by \<open>None\<close>.
  The \<^verbatim>\<open>ASSERT_CRASH\<close> range checks on \<open>connection_index\<close> are preconditions of
  the theorems below.
\<close>

record 'a ReliableBuffer =
  m_sequence :: "u16 list"
  m_entry_sequence :: "u32 list"
  m_entry_data :: "'a list"

definition EMPTY_ENTRY :: u32 where
  "EMPTY_ENTRY = 0xFFFFFFFF"

definition ResetAll_buffer :: "nat \<Rightarrow> nat \<Rightarrow> 'a \<Rightarrow> 'a ReliableBuffer" where
  "ResetAll_buffer N C dflt =
     \<lparr> m_sequence = replicate C 0,
       m_entry_sequence = replicate (N * C) EMPTY_ENTRY,
       m_entry_data = replicate (N * C) dflt \<rparr>"

definition fill_range :: "nat \<Rightarrow> nat \<Rightarrow> 'b \<Rightarrow> 'b list \<Rightarrow> 'b list" where
  "fill_range lo hi v xs = fold (\<lambda>i ys. ys[i := v]) [lo..<hi] xs"

definition Reset_buffer :: "nat \<Rightarrow> 'a \<Rightarrow> 'a ReliableBuffer \<Rightarrow> nat \<Rightarrow> 'a ReliableBuffer" where
  "Reset_buffer N dflt b c =
     b \<lparr> m_sequence := (m_sequence b)[c := 0],
         m_entry_sequence := fill_range (c * N) ((c + 1) * N) EMPTY_ENTRY (m_entry_sequence b),
         m_entry_data := fill_range (c * N) ((c + 1) * N) dflt (m_entry_data b) \<rparr>"

text \<open>
  \<^verbatim>\<open>RemoveEntries(connection_index, int start_sequence, int finish_sequence)\<close>:
  both sequence arguments are \<^verbatim>\<open>int\<close>, and \<open>finish_sequence\<close> may be pushed past
  65535 by the wrap correction.  The \<^verbatim>\<open>for\<close> loop over the sequences is the
  \<^const>\<open>fold\<close> over \<open>[start..<finish + 1]\<close>.
\<close>

definition RemoveEntries :: "nat \<Rightarrow> 'a ReliableBuffer \<Rightarrow> nat \<Rightarrow> nat \<Rightarrow> nat \<Rightarrow> 'a ReliableBuffer" where
  "RemoveEntries N b c start_sequence finish_sequence =
     (let finish = (if finish_sequence < start_sequence then finish_sequence + 65536
                    else finish_sequence)
      in if finish - start_sequence < N
         then b \<lparr> m_entry_sequence :=
                     fold (\<lambda>sequence es. es[c * N + sequence mod N := EMPTY_ENTRY])
                          [start_sequence..<Suc finish] (m_entry_sequence b) \<rparr>
         else b \<lparr> m_entry_sequence :=
                     fill_range (c * N) ((c + 1) * N) EMPTY_ENTRY (m_entry_sequence b) \<rparr>)"

definition TestInsert :: "nat \<Rightarrow> 'a ReliableBuffer \<Rightarrow> nat \<Rightarrow> u16 \<Rightarrow> bool" where
  "TestInsert N b c sequence =
     (if SequenceLessThan sequence (m_sequence b ! c - of_nat N) then False else True)"

definition Insert :: "nat \<Rightarrow> 'a ReliableBuffer \<Rightarrow> nat \<Rightarrow> u16 \<Rightarrow> 'a ReliableBuffer \<times> nat option" where
  "Insert N b c sequence =
     (if SequenceGreaterThan (sequence + 1) (m_sequence b ! c)
      then
        (let b1 = RemoveEntries N b c (unat (m_sequence b ! c)) (unat sequence);
             b2 = b1 \<lparr> m_sequence := (m_sequence b1)[c := sequence + 1] \<rparr>;
             index = c * N + unat sequence mod N
         in (b2 \<lparr> m_entry_sequence := (m_entry_sequence b2)[index := ucast sequence] \<rparr>,
             Some index))
      else if SequenceLessThan sequence (m_sequence b ! c - of_nat N)
      then (b, None)
      else
        (let index = c * N + unat sequence mod N
         in (b \<lparr> m_entry_sequence := (m_entry_sequence b)[index := ucast sequence] \<rparr>,
             Some index)))"

definition Remove :: "nat \<Rightarrow> 'a ReliableBuffer \<Rightarrow> nat \<Rightarrow> u16 \<Rightarrow> 'a ReliableBuffer" where
  "Remove N b c sequence =
     b \<lparr> m_entry_sequence := (m_entry_sequence b)[c * N + unat sequence mod N := EMPTY_ENTRY] \<rparr>"

definition Available :: "nat \<Rightarrow> 'a ReliableBuffer \<Rightarrow> nat \<Rightarrow> u16 \<Rightarrow> bool" where
  "Available N b c sequence =
     (m_entry_sequence b ! (c * N + unat sequence mod N) = EMPTY_ENTRY)"

definition Exists :: "nat \<Rightarrow> 'a ReliableBuffer \<Rightarrow> nat \<Rightarrow> u16 \<Rightarrow> bool" where
  "Exists N b c sequence =
     (m_entry_sequence b ! (c * N + unat sequence mod N) = ucast sequence)"

definition Find :: "nat \<Rightarrow> 'a ReliableBuffer \<Rightarrow> nat \<Rightarrow> u16 \<Rightarrow> nat option" where
  "Find N b c sequence =
     (let index = c * N + unat sequence mod N
      in if m_entry_sequence b ! index = ucast sequence then Some index else None)"

definition GetAtIndex :: "nat \<Rightarrow> 'a ReliableBuffer \<Rightarrow> nat \<Rightarrow> nat \<Rightarrow> nat option" where
  "GetAtIndex N b c index =
     (if m_entry_sequence b ! (c * N + index) \<noteq> EMPTY_ENTRY then Some (c * N + index) else None)"

definition GetSequence :: "'a ReliableBuffer \<Rightarrow> nat \<Rightarrow> u16" where
  "GetSequence b c = m_sequence b ! c"

text \<open>
  \<^verbatim>\<open>GenerateAcknowledgementBits\<close>: the loop state is the pair
  \<open>(ack_bits, mask)\<close>; the loop runs for \<open>i = 0, \<dots>, 31\<close>.
\<close>

definition ack_step :: "nat \<Rightarrow> 'a ReliableBuffer \<Rightarrow> nat \<Rightarrow> u16 \<Rightarrow> nat \<Rightarrow> u32 \<times> u32 \<Rightarrow> u32 \<times> u32" where
  "ack_step N b c ack i st =
     (let ack_bits = fst st; mask = snd st;
          sequence = ack - of_nat i
      in ((if Exists N b c sequence then ack_bits OR mask else ack_bits), push_bit 1 mask))"

definition GenerateAcknowledgementBits :: "nat \<Rightarrow> 'a ReliableBuffer \<Rightarrow> nat \<Rightarrow> u16 \<times> u32" where
  "GenerateAcknowledgementBits N b c =
     (let ack = m_sequence b ! c - 1
      in (ack, fst (fold (ack_step N b c ack) [0..<32] (0, 1))))"

text \<open>Well-formed buffer for \<open>C\<close> connections of capacity \<open>N\<close>: the array sizes of the class.\<close>

definition buffer_ok :: "nat \<Rightarrow> nat \<Rightarrow> 'a ReliableBuffer \<Rightarrow> bool" where
  "buffer_ok N C b =
     (0 < N \<and> length (m_sequence b) = C \<and> length (m_entry_sequence b) = N * C \<and>
      length (m_entry_data b) = N * C)"

text \<open>
  The received-packet buffer of one connection (capacity 256) after the packets with
  sequences 100, 98, 97 and 95 have been inserted, in this order of arrival.
\<close>

definition received_example :: "unit ReliableBuffer" where
  "received_example =
     fst (Insert 256 (fst (Insert 256 (fst (Insert 256 (fst (Insert 256
       (ResetAll_buffer 256 1 ()) 0 100)) 0 98)) 0 97)) 0 95)"

text \<open>Two small buffers (capacity 8, one connection) used to exercise \<open>Insert\<close>.\<close>

definition buffer_example0 :: "unit ReliableBuffer" where
  "buffer_example0 = ResetAll_buffer 8 1 ()"

definition buffer_example1 :: "unit ReliableBuffer" where
  "buffer_example1 = fst (Insert 8 buffer_example0 0 100)"

section \<open>Packet header (SerialiseReliable.cpp)\<close>

text \<open>
  Modelled from the spec: \<^verbatim>\<open>CoreSerialise::WriteUint8\<close>, \<^verbatim>\<open>WriteUint16\<close>,
  \<^verbatim>\<open>ReadUint8\<close> and \<^verbatim>\<open>ReadUint16\<close> are declared in a header that is not part of
  the sources.  The spec fixes their format: one byte, and two bytes little-endian;
  each call advances the cursor \<^verbatim>\<open>p\<close> by the bytes it handled.  A write cursor
  into a fresh buffer is modelled by the list of bytes written so far, a read cursor
  by the buffer and an offset.
\<close>

definition WriteUint8 :: "u8 list \<Rightarrow> u8 \<Rightarrow> u8 list" where
  "WriteUint8 p v = p @ [v]"

definition WriteUint16 :: "u8 list \<Rightarrow> u16 \<Rightarrow> u8 list" where
  "WriteUint16 p v = p @ [ucast v, ucast (drop_bit 8 v)]"

definition ReadUint8 :: "u8 list \<Rightarrow> nat \<Rightarrow> u8 \<times> nat" where
  "ReadUint8 d p = (d ! p, p + 1)"

definition ReadUint16 :: "u8 list \<Rightarrow> nat \<Rightarrow> u16 \<times> nat" where
  "ReadUint16 d p = (ucast (d ! p) OR push_bit 8 (ucast (d ! (p + 1))), p + 2)"

definition MIN_RUDP_HEADER_BYTES :: int where
  "MIN_RUDP_HEADER_BYTES = 4"

definition MAX_RUDP_HEADER_BYTES :: int where
  "MAX_RUDP_HEADER_BYTES = 9"

text \<open>
  \<^verbatim>\<open>WritePacketHeader\<close> returns the number of bytes written, \<^verbatim>\<open>p - packet_data\<close>;
  here it returns the bytes themselves, whose length is that number.
  \<open>sequence_difference\<close> is an \<^verbatim>\<open>int\<close>.
\<close>

definition WritePacketHeader :: "u16 \<Rightarrow> u16 \<Rightarrow> u32 \<Rightarrow> u8 list" where
  "WritePacketHeader sequence ack ack_bits =
     (let prefix0 = (0 :: u8);
          prefix1 = (if ack_bits AND 0x000000FF \<noteq> 0x000000FF then prefix0 OR push_bit 1 1 else prefix0);
          prefix2 = (if ack_bits AND 0x0000FF00 \<noteq> 0x0000FF00 then prefix1 OR push_bit 2 1 else prefix1);
          prefix3 = (if ack_bits AND 0x00FF0000 \<noteq> 0x00FF0000 then prefix2 OR push_bit 3 1 else prefix2);
          prefix4 = (if ack_bits AND 0xFF000000 \<noteq> 0xFF000000 then prefix3 OR push_bit 4 1 else prefix3);
          difference0 = uint sequence - uint ack;
          sequence_difference = (if difference0 < 0 then difference0 + 65536 else difference0);
          prefix_byte = (if sequence_difference \<le> 255 then prefix4 OR push_bit 5 1 else prefix4);
          p1 = WriteUint8 [] prefix_byte;
          p2 = WriteUint16 p1 sequence;
          p3 = (if sequence_difference \<le> 255 then WriteUint8 p2 (of_int sequence_difference)
                else WriteUint16 p2 ack);
          p4 = (if ack_bits AND 0x000000FF \<noteq> 0x000000FF
                then WriteUint8 p3 (ucast (ack_bits AND 0x000000FF)) else p3);
          p5 = (if ack_bits AND 0x0000FF00 \<noteq> 0x0000FF00
                then WriteUint8 p4 (ucast (drop_bit 8 (ack_bits AND 0x0000FF00))) else p4);
          p6 = (if ack_bits AND 0x00FF0000 \<noteq> 0x00FF0000
                then WriteUint8 p5 (ucast (drop_bit 16 (ack_bits AND 0x00FF0000))) else p5);
          p7 = (if ack_bits AND 0xFF000000 \<noteq> 0xFF000000
                then WriteUint8 p6 (ucast (drop_bit 24 (ack_bits AND 0xFF000000))) else p6)
      in p7)"

text \<open>
  \<^verbatim>\<open>ReadPacketHeader\<close>: the result \<open>None\<close> is the return value \<open>-1\<close>; otherwise the
  three output parameters and the number of bytes read are returned.
  \<open>read_ack_byte\<close> is one of the four conditional ack-bitmap reads at the end.
\<close>

definition read_ack_byte :: "u8 \<Rightarrow> u8 list \<Rightarrow> nat \<Rightarrow> u32 \<Rightarrow> u32 \<times> nat \<Rightarrow> u32 \<times> nat" where
  "read_ack_byte prefix_byte d i keep st =
     (let ack_bits = fst st; p = snd st
      in if prefix_byte AND push_bit i 1 \<noteq> 0
         then (let r = ReadUint8 d p
               in ((ack_bits AND keep) OR push_bit (8 * (i - 1)) (ucast (fst r)), snd r))
         else (ack_bits, p))"

definition ReadPacketHeader :: "u8 list \<Rightarrow> int \<Rightarrow> (u16 \<times> u16 \<times> u32 \<times> nat) option" where
  "ReadPacketHeader packet_data packet_bytes =
     (if packet_bytes < MIN_RUDP_HEADER_BYTES then None
      else
        let r0 = ReadUint8 packet_data 0; prefix_byte = fst r0
        in if prefix_byte AND 0x1 \<noteq> 0 then None
           else
             let r1 = ReadUint16 packet_data (snd r0); sequence = fst r1
             in case (if prefix_byte AND push_bit 5 1 \<noteq> 0
                      then (let r2 = ReadUint8 packet_data (snd r1)
                            in Some (sequence - ucast (fst r2), snd r2))
                      else if packet_bytes < 3 + 2 then None
                      else Some (ReadUint16 packet_data (snd r1))) of
                  None \<Rightarrow> None
                | Some (ack, p) \<Rightarrow>
                    let expected_bytes =
                          length (filter (\<lambda>i. prefix_byte AND push_bit i 1 \<noteq> 0) [1..<5])
                    in if packet_bytes < int p + int expected_bytes then None
                       else
                         let s1 = read_ack_byte prefix_byte packet_data 1 0xFFFFFF00 (0xFFFFFFFF, p);
                             s2 = read_ack_byte prefix_byte packet_data 2 0xFFFF00FF s1;
                             s3 = read_ack_byte prefix_byte packet_data 3 0xFF00FFFF s2;
                             s4 = read_ack_byte prefix_byte packet_data 4 0x00FFFFFF s3
                         in Some (sequence, ack, fst s4, snd s4))"

text \<open>Byte \<open>i\<close> of the 32-bit ack bitmap, least significant first.\<close>

definition ack_byte :: "u32 \<Rightarrow> nat \<Rightarrow> u8" where
  "ack_byte ack_bits i = ucast (drop_bit (8 * i) ack_bits)"

text \<open>
  Two notions used to state the header layout: the optional ack-bitmap byte \<open>i\<close>
  (absent when the byte is all-ones), and the prefix byte as a function of the five
  conditions that \<^verbatim>\<open>WritePacketHeader\<close> tests.
\<close>

definition ack_tail :: "u32 \<Rightarrow> nat \<Rightarrow> u8 list" where
  "ack_tail ack_bits i = (if ack_byte ack_bits i \<noteq> 0xFF then [ack_byte ack_bits i] else [])"

definition header_prefix :: "bool \<Rightarrow> bool \<Rightarrow> bool \<Rightarrow> bool \<Rightarrow> bool \<Rightarrow> u8" where
  "header_prefix f0 f1 f2 f3 d =
     (let prefix0 = (0 :: u8);
          prefix1 = (if f0 then prefix0 OR push_bit 1 1 else prefix0);
          prefix2 = (if f1 then prefix1 OR push_bit 2 1 else prefix1);
          prefix3 = (if f2 then prefix2 OR push_bit 3 1 else prefix2);
          prefix4 = (if f3 then prefix3 OR push_bit 4 1 else prefix3)
      in if d then prefix4 OR push_bit 5 1 else prefix4)"

section \<open>Unreliable-unordered channel: counters (UnreliableUnorderedChannel.h)\<close>

datatype ErrorLevel =
    ERROR_NONE
  | CHANNEL_ERROR_DESYNC
  | CHANNEL_ERROR_SEND_QUEUE_FULL
  | CHANNEL_ERROR_FAILED_TO_SERIALISE
  | CHANNEL_ERROR_OUT_OF_MEMORY

text \<open>
  \<^verbatim>\<open>ChannelMessage\<close>.  \<open>message_data\<close> is a pointer into the global allocator:
  an address, \<open>None\<close> for \<^verbatim>\<open>nullptr\<close>.
\<close>

record ChannelMessage =
  message_protocol :: u16
  message_id :: u16
  is_block :: bool
  block_offset :: nat
  block_size :: u16
  message_data :: "nat option"

definition CHANNEL_COUNTER_MESSAGES_SENT :: nat where
  "CHANNEL_COUNTER_MESSAGES_SENT = 0"

definition CHANNEL_COUNTER_MESSAGES_RECEIVED :: nat where
  "CHANNEL_COUNTER_MESSAGES_RECEIVED = 1"

definition CHANNEL_COUNTER_NUMBER_OF_COUNTERS :: nat where
  "CHANNEL_COUNTER_NUMBER_OF_COUNTERS = 2"

text \<open>
  The global allocator \<^verbatim>\<open>Global::GMemory\<close> is modelled by the set of live
  addresses; \<^verbatim>\<open>Release\<close> of a pointer takes its address out of the set, and
  releasing \<^verbatim>\<open>nullptr\<close> does nothing.
\<close>

definition Release :: "nat option \<Rightarrow> nat set \<Rightarrow> nat set" where
  "Release p live = (case p of None \<Rightarrow> live | Some a \<Rightarrow> live - {a})"

text \<open>
  State of an \<^verbatim>\<open>UnreliableUnorderedChannel\<close>: one bounded queue per connection
  (\<^verbatim>\<open>AtomicQueue2\<close>, used from one thread here, so a list with the oldest message
  first), the flat counter array, the error level per connection and the allocator.
  The template parameters \<open>send_queue_size\<close> and \<open>receive_queue_size\<close> are
  arguments of the operations that need them.
\<close>

record UnreliableUnorderedChannel =
  uu_message_send_queue :: "ChannelMessage list list"
  uu_message_receive_queue :: "ChannelMessage list list"
  uu_counters_array :: "u64 list"
  uu_error_level :: "ErrorLevel list"
  uu_live :: "nat set"

definition uu_SendMessage ::
  "nat \<Rightarrow> UnreliableUnorderedChannel \<Rightarrow> nat \<Rightarrow> ChannelMessage \<Rightarrow> UnreliableUnorderedChannel" where
  "uu_SendMessage send_queue_size ch connection_index message =
     (if uu_error_level ch ! connection_index \<noteq> ERROR_NONE
      then ch \<lparr> uu_live := Release (message_data message) (uu_live ch) \<rparr>
      else if \<not> (length (uu_message_send_queue ch ! connection_index) < send_queue_size)
      then ch \<lparr> uu_error_level := (uu_error_level ch)[connection_index := CHANNEL_ERROR_SEND_QUEUE_FULL],
                uu_live := Release (message_data message) (uu_live ch) \<rparr>
      else
        let i = connection_index * CHANNEL_COUNTER_NUMBER_OF_COUNTERS + CHANNEL_COUNTER_MESSAGES_SENT
        in ch \<lparr> uu_message_send_queue :=
                   (uu_message_send_queue ch)
                     [connection_index := uu_message_send_queue ch ! connection_index @ [message]],
                 uu_counters_array := (uu_counters_array ch)[i := uu_counters_array ch ! i + 1] \<rparr>)"

definition uu_ReceiveMessage ::
  "UnreliableUnorderedChannel \<Rightarrow> nat \<Rightarrow> UnreliableUnorderedChannel \<times> ChannelMessage option" where
  "uu_ReceiveMessage ch connection_index =
     (if uu_error_level ch ! connection_index \<noteq> ERROR_NONE then (ch, None)
      else case uu_message_receive_queue ch ! connection_index of
             [] \<Rightarrow> (ch, None)
           | message # rest \<Rightarrow>
               let i = connection_index * CHANNEL_COUNTER_NUMBER_OF_COUNTERS +
                       CHANNEL_COUNTER_MESSAGES_RECEIVED
               in (ch \<lparr> uu_counters_array := (uu_counters_array ch)[i := uu_counters_array ch ! i + 1],
                         uu_message_receive_queue :=
                           (uu_message_receive_queue ch)[connection_index := rest] \<rparr>,
                   Some message))"

definition uu_GetCounter :: "UnreliableUnorderedChannel \<Rightarrow> nat \<Rightarrow> nat \<Rightarrow> u64" where
  "uu_GetCounter ch connection_index index = uu_counters_array ch ! index"

text \<open>The array sizes of the class for \<open>max_connection_count = C\<close>.\<close>

definition uu_ok :: "nat \<Rightarrow> UnreliableUnorderedChannel \<Rightarrow> bool" where
  "uu_ok C ch =
     (length (uu_message_send_queue ch) = C \<and> length (uu_message_receive_queue ch) = C \<and>
      length (uu_counters_array ch) = CHANNEL_COUNTER_NUMBER_OF_COUNTERS * C \<and>
      length (uu_error_level ch) = C)"

text \<open>
  A channel with two connections after construction, each counter zero, and a
  message without payload.
\<close>

definition uu_example :: UnreliableUnorderedChannel where
  "uu_example =
     \<lparr> uu_message_send_queue = [[], []], uu_message_receive_queue = [[], []],
       uu_counters_array = [0, 0, 0, 0], uu_error_level = [ERROR_NONE, ERROR_NONE],
       uu_live = {} \<rparr>"

definition uu_example_received :: UnreliableUnorderedChannel where
  "uu_example_received =
     uu_example \<lparr> uu_message_receive_queue :=
       [[], [\<lparr> message_protocol = 7, message_id = 0, is_block = False, block_offset = 0,
               block_size = 0, message_data = None \<rparr>]] \<rparr>"

definition message_example :: ChannelMessage where
  "message_example =
     \<lparr> message_protocol = 7, message_id = 0, is_block = False, block_offset = 0,
       block_size = 0, message_data = None \<rparr>"

section \<open>Bit writer (BitWriter.cpp)\<close>

text \<open>
  The buffer of a \<^verbatim>\<open>BitWriter\<close> is an array of 32-bit words, owned by the caller; the
  model keeps it inside the writer.  The \<^verbatim>\<open>unsigned int\<close> counters are natural
  numbers: a buffer is far smaller than \<open>2^32\<close> bits, so they never wrap.  The host is
  little-endian, where \<^verbatim>\<open>HostToNetwork\<close> and \<^verbatim>\<open>NetworkToHost\<close> are the identity and
  byte \<open>k\<close> of a word in memory is its bits \<open>8k \<dots> 8k+7\<close>.  The \<^verbatim>\<open>DEBUG_ASSERT\<close>s are
  compiled out of release builds and are not part of the model.
\<close>

record BitWriter =
  bw_number_of_32_bit_ints :: nat
  bw_bits_written :: nat
  bw_32_bit_int_index :: nat
  bw_scratch_bits :: nat
  bw_scratch :: u64
  bw_data :: "u32 list"

definition BitWriter_new :: "u32 list \<Rightarrow> nat \<Rightarrow> BitWriter" where
  "BitWriter_new data bytes =
     \<lparr> bw_number_of_32_bit_ints = bytes div 4, bw_bits_written = 0, bw_32_bit_int_index = 0,
       bw_scratch_bits = 0, bw_scratch = 0, bw_data = data \<rparr>"

definition WriteBits :: "BitWriter \<Rightarrow> u32 \<Rightarrow> nat \<Rightarrow> BitWriter" where
  "WriteBits w v bits =
     (let scratch = bw_scratch w OR push_bit (bw_scratch_bits w) (ucast v :: u64);
          scratch_bits = bw_scratch_bits w + bits;
          w1 = (if scratch_bits \<ge> 32
                then w \<lparr> bw_data := (bw_data w)[bw_32_bit_int_index w :=
                                       ucast (scratch AND 0xFFFFFFFF)],
                         bw_scratch := drop_bit 32 scratch,
                         bw_scratch_bits := scratch_bits - 32,
                         bw_32_bit_int_index := bw_32_bit_int_index w + 1 \<rparr>
                else w \<lparr> bw_scratch := scratch, bw_scratch_bits := scratch_bits \<rparr>)
      in w1 \<lparr> bw_bits_written := bw_bits_written w + bits \<rparr>)"

definition WriteZeroPaddingToAlignByteBoundary :: "BitWriter \<Rightarrow> BitWriter" where
  "WriteZeroPaddingToAlignByteBoundary w =
     (let remainder_bits = bw_bits_written w mod 8
      in if remainder_bits \<noteq> 0 then WriteBits w 0 (8 - remainder_bits) else w)"

text \<open>
  Four bytes of memory read as one 32-bit word, and a word laid out as four bytes
  (little-endian host): what \<^verbatim>\<open>std::copy_n\<close> between a byte array and the word
  buffer does.
\<close>

definition word_of_bytes :: "u8 list \<Rightarrow> u32" where
  "word_of_bytes bs =
     ucast (bs ! 0) OR push_bit 8 (ucast (bs ! 1)) OR push_bit 16 (ucast (bs ! 2)) OR
     push_bit 24 (ucast (bs ! 3))"

definition bytes_of_word :: "u32 \<Rightarrow> u8 list" where
  "bytes_of_word x = [ucast x, ucast (drop_bit 8 x), ucast (drop_bit 16 x), ucast (drop_bit 24 x)]"

definition head_bytes_of :: "nat \<Rightarrow> nat \<Rightarrow> nat" where
  "head_bytes_of bit_position bytes =
     (let head_bytes = (4 - (bit_position mod 32) div 8) mod 4
      in if head_bytes > bytes then bytes else head_bytes)"

definition WriteBytes :: "BitWriter \<Rightarrow> u8 list \<Rightarrow> BitWriter" where
  "WriteBytes w bs =
     (let bytes = length bs;
          head_bytes = head_bytes_of (bw_bits_written w) bytes;
          w1 = fold (\<lambda>i w. WriteBits w (ucast (bs ! i)) 8) [0..<head_bytes] w
      in if head_bytes = bytes then w1
         else
           let number_of_32_bit_integers = (bytes - head_bytes) div 4;
               w2 = (if number_of_32_bit_integers > 0
                     then w1 \<lparr> bw_data :=
                                 fold (\<lambda>j d. d[bw_32_bit_int_index w1 + j :=
                                                  word_of_bytes (take 4 (drop (head_bytes + 4 * j) bs))])
                                      [0..<number_of_32_bit_integers] (bw_data w1),
                               bw_bits_written :=
                                 bw_bits_written w1 + number_of_32_bit_integers * 32,
                               bw_32_bit_int_index :=
                                 bw_32_bit_int_index w1 + number_of_32_bit_integers \<rparr>
                     else w1);
               tail_start = head_bytes + number_of_32_bit_integers * 4;
               tail_bytes = bytes - tail_start
           in fold (\<lambda>i w. WriteBits w (ucast (bs ! (tail_start + i))) 8) [0..<tail_bytes] w2)"

definition FlushBits :: "BitWriter \<Rightarrow> BitWriter" where
  "FlushBits w =
     (if bw_scratch_bits w \<noteq> 0
      then w \<lparr> bw_data := (bw_data w)[bw_32_bit_int_index w :=
                             ucast (bw_scratch w AND 0xFFFFFFFF)],
               bw_scratch := drop_bit 32 (bw_scratch w),
               bw_scratch_bits := 0,
               bw_32_bit_int_index := bw_32_bit_int_index w + 1 \<rparr>
      else w)"

definition GetBytesWritten :: "BitWriter \<Rightarrow> nat" where
  "GetBytesWritten w = (bw_bits_written w + (8 - 1)) div 8"

section \<open>Bit reader (BitReader.cpp)\<close>

record BitReader =
  br_bitpacked_data :: "u32 list"
  br_number_of_bytes :: nat
  br_bits_read :: nat
  br_scratch_bits :: nat
  br_32_bit_int_index :: nat
  br_scratch :: u64

definition BitReader_new :: "u32 list \<Rightarrow> nat \<Rightarrow> BitReader" where
  "BitReader_new data bytes =
     \<lparr> br_bitpacked_data = data, br_number_of_bytes = bytes, br_bits_read = 0,
       br_scratch_bits = 0, br_32_bit_int_index = 0, br_scratch = 0 \<rparr>"

definition WouldReadPastEnd :: "BitReader \<Rightarrow> nat \<Rightarrow> bool" where
  "WouldReadPastEnd r bits = (br_bits_read r + bits > br_number_of_bytes r * 8)"

definition ReadBits :: "BitReader \<Rightarrow> nat \<Rightarrow> u32 \<times> BitReader" where
  "ReadBits r bits =
     (let r1 = r \<lparr> br_bits_read := br_bits_read r + bits \<rparr>;
          r2 = (if br_scratch_bits r1 < bits
                then r1 \<lparr> br_scratch :=
                             br_scratch r1 OR
                             push_bit (br_scratch_bits r1)
                               (ucast (br_bitpacked_data r1 ! br_32_bit_int_index r1) :: u64),
                           br_scratch_bits := br_scratch_bits r1 + 32,
                           br_32_bit_int_index := br_32_bit_int_index r1 + 1 \<rparr>
                else r1);
          output = (ucast (br_scratch r2 AND (push_bit bits 1 - 1)) :: u32)
      in (output, r2 \<lparr> br_scratch := drop_bit bits (br_scratch r2),
                        br_scratch_bits := br_scratch_bits r2 - bits \<rparr>))"

definition reader_GetAlignBits :: "BitReader \<Rightarrow> nat" where
  "reader_GetAlignBits r = (8 - (br_bits_read r mod 8)) mod 8"

definition SkipToByteBoundaryAndVerifyZeroPadding :: "BitReader \<Rightarrow> bool \<times> BitReader" where
  "SkipToByteBoundaryAndVerifyZeroPadding r =
     (let remainder_bits = br_bits_read r mod 8
      in if remainder_bits \<noteq> 0
         then (let res = ReadBits r (8 - remainder_bits)
               in if fst res \<noteq> 0 then (False, snd res) else (True, snd res))
         else (True, r))"

text \<open>
  One byte-wise step of \<^verbatim>\<open>ReadBytes\<close>: read 8 bits and append them to the output.
  The state of the loops is the pair of the bytes produced so far and the reader.
\<close>

definition read_byte_step :: "u8 list \<times> BitReader \<Rightarrow> u8 list \<times> BitReader" where
  "read_byte_step st = (let res = ReadBits (snd st) 8 in (fst st @ [ucast (fst res)], snd res))"

text \<open>
  \<^verbatim>\<open>ReadBytes(data, bytes)\<close> returns the \<open>bytes\<close> bytes stored into \<open>data\<close>.  The
  word-wise middle copy takes its source from \<^verbatim>\<open>&m_bitpacked_data[number_of_32_bit_integers]\<close>,
  as the source has it.
\<close>

definition ReadBytes :: "BitReader \<Rightarrow> nat \<Rightarrow> u8 list \<times> BitReader" where
  "ReadBytes r bytes =
     (let head_bytes = head_bytes_of (br_bits_read r) bytes;
          st1 = fold (\<lambda>i st. read_byte_step st) [0..<head_bytes] ([], r)
      in if head_bytes = bytes then st1
         else
           let number_of_32_bit_integers = (bytes - head_bytes) div 4;
               st2 = (if number_of_32_bit_integers > 0
                      then (fst st1 @
                              concat (map (\<lambda>j. bytes_of_word
                                             (br_bitpacked_data (snd st1) !
                                                (number_of_32_bit_integers + j)))
                                          [0..<number_of_32_bit_integers]),
                            (snd st1)
                              \<lparr> br_bits_read :=
                                  br_bits_read (snd st1) + number_of_32_bit_integers * 32,
                                br_32_bit_int_index :=
                                  br_32_bit_int_index (snd st1) + number_of_32_bit_integers \<rparr>)
                      else st1);
               tail_start = head_bytes + number_of_32_bit_integers * 4;
               tail_bytes = bytes - tail_start
           in fold (\<lambda>i st. read_byte_step st) [0..<tail_bytes] st2)"

text \<open>
  The byte round trip at bit position 0 (which is byte-aligned) on a zeroed buffer of
  \<open>words\<close> 32-bit words: a fresh writer writes the bytes \<open>bs\<close> and flushes; a fresh
  reader over the same buffer reads \<open>length bs\<close> bytes, which are the result.
\<close>

definition written_buffer :: "nat \<Rightarrow> u8 list \<Rightarrow> u32 list" where
  "written_buffer words bs =
     bw_data (FlushBits (WriteBytes (BitWriter_new (replicate words 0) (4 * words)) bs))"

definition bytes_roundtrip :: "nat \<Rightarrow> u8 list \<Rightarrow> u8 list" where
  "bytes_roundtrip words bs =
     fst (ReadBytes (BitReader_new (written_buffer words bs) (4 * words)) (length bs))"

section \<open>Write and read streams (WriteStream.hpp, ReadStream.hpp, ReadStream.cpp)\<close>

text \<open>
  A \<^verbatim>\<open>WriteStream\<close> wraps a \<^verbatim>\<open>BitWriter\<close> and a \<^verbatim>\<open>ReadStream\<close> a \<^verbatim>\<open>BitReader\<close>; the
  model uses the wrapped objects.  \<^verbatim>\<open>SerialiseInteger\<close> writes \<open>value - min\<close>, cast to
  32 bits, in \<open>BitsRequired min max\<close> bits.  A failed read is \<open>None\<close>; the reader comes
  back in either case, as the stream is passed by reference.
\<close>

definition SerialiseInteger :: "BitWriter \<Rightarrow> int \<Rightarrow> nat \<Rightarrow> nat \<Rightarrow> BitWriter" where
  "SerialiseInteger w v mn mx =
     WriteBits w (of_int (v - int mn)) (BitsRequired (of_nat mn) (of_nat mx))"

definition SerialiseBits :: "BitWriter \<Rightarrow> u32 \<Rightarrow> nat \<Rightarrow> BitWriter" where
  "SerialiseBits w v bits = WriteBits w v bits"

definition DeserialiseInteger :: "BitReader \<Rightarrow> nat \<Rightarrow> nat \<Rightarrow> int option \<times> BitReader" where
  "DeserialiseInteger r mn mx =
     (let bits = BitsRequired (of_nat mn) (of_nat mx)
      in if WouldReadPastEnd r bits then (None, r)
         else (let res = ReadBits r bits in (Some (uint (fst res) + int mn), snd res)))"

definition DeserialiseBits :: "BitReader \<Rightarrow> nat \<Rightarrow> u32 option \<times> BitReader" where
  "DeserialiseBits r bits =
     (if WouldReadPastEnd r bits then (None, r)
      else (let res = ReadBits r bits in (Some (fst res), snd res)))"

definition DeserialiseBool :: "BitReader \<Rightarrow> bool option \<times> BitReader" where
  "DeserialiseBool r =
     (case DeserialiseBits r 1 of
        (None, r1) \<Rightarrow> (None, r1)
      | (Some v, r1) \<Rightarrow> (Some (v \<noteq> 0), r1))"

text \<open>
  One tier of \<^verbatim>\<open>DeserialiseUnsignedIntegerRelative\<close>: read the flag; if it is set, read
  the difference in the tier's range and return \<open>previous + difference\<close>; if it is clear,
  go on with \<open>next\<close>.
\<close>

definition relative_tier ::
  "nat \<Rightarrow> nat \<Rightarrow> u32 \<Rightarrow> (BitReader \<Rightarrow> u32 option \<times> BitReader) \<Rightarrow> BitReader \<Rightarrow>
   u32 option \<times> BitReader" where
  "relative_tier mn mx previous next r =
     (case DeserialiseBool r of
        (None, r1) \<Rightarrow> (None, r1)
      | (Some True, r1) \<Rightarrow>
          (case DeserialiseInteger r1 mn mx of
             (None, r2) \<Rightarrow> (None, r2)
           | (Some difference, r2) \<Rightarrow> (Some (previous + of_int difference), r2))
      | (Some False, r1) \<Rightarrow> next r1)"

definition DeserialiseUnsignedIntegerRelative :: "BitReader \<Rightarrow> u32 \<Rightarrow> u32 option \<times> BitReader" where
  "DeserialiseUnsignedIntegerRelative r previous =
     (case DeserialiseBool r of
        (None, r1) \<Rightarrow> (None, r1)
      | (Some True, r1) \<Rightarrow> (Some (previous + 1), r1)
      | (Some False, r1) \<Rightarrow>
          relative_tier 2 5 previous
            (relative_tier 6 21 previous
              (relative_tier 22 277 previous
                (relative_tier 278 4373 previous
                  (relative_tier 4374 69909 previous
                    (\<lambda>r6. case DeserialiseInteger r6 0 4294967295 of
                             (None, r7) \<Rightarrow> (None, r7)
                           | (Some current, r7) \<Rightarrow> (Some (of_int current), r7)))))) r1)"

definition DeserialiseSequenceRelative :: "BitReader \<Rightarrow> u16 \<Rightarrow> u16 option \<times> BitReader" where
  "DeserialiseSequenceRelative r sequence1 =
     (case DeserialiseUnsignedIntegerRelative r (ucast sequence1) of
        (None, r1) \<Rightarrow> (None, r1)
      | (Some b, r1) \<Rightarrow> (Some (ucast b), r1))"

section \<open>Reliable-ordered channel (ReliableOrderedChannel.h)\<close>

text \<open>
  The template parameters of the class, and of \<^verbatim>\<open>GetPacketData\<close>, as one record.
\<close>

record ChannelConfig =
  max_connection_count :: nat
  message_resend_time_milliseconds :: int
  message_send_queue_size :: nat
  message_receive_queue_size :: nat
  message_sent_queue_size :: nat
  max_messages_per_packet :: nat
  packet_budget :: int
  max_message_type_number :: nat
  max_number_of_fragments :: nat
  max_fragment_size :: nat
  fragment_resend_time_milliseconds :: int
  number_of_channels :: nat
  channel_index :: nat

text \<open>
  What the channel asks of its \<^verbatim>\<open>connection_manager_class\<close>: the clock and the
  user-supplied packet handler.
\<close>

record Env =
  GetTime :: int
  GetMessageSizeInBits :: "u16 \<Rightarrow> nat"
  SerialiseMessage :: "ChannelMessage \<Rightarrow> BitWriter \<Rightarrow> BitWriter"
  DeserialiseMessage :: "ChannelMessage \<Rightarrow> BitReader \<Rightarrow> bool \<times> ChannelMessage \<times> BitReader"

record MessageSendQueueEntry =
  se_channel_message :: ChannelMessage
  measuredBits :: nat
  block :: bool
  time_last_sent :: int

record MessageReceiveQueueEntry =
  re_channel_message :: ChannelMessage

text \<open>
  \<^verbatim>\<open>SentPacketEntry\<close>: \<open>message_ids\<close> (here \<open>sp_message_ids\<close>) points into the flat array
  \<^verbatim>\<open>m_sent_packet_message_ids_array\<close> of the channel; it is the offset of its first
  element there, \<open>None\<close> for \<^verbatim>\<open>nullptr\<close>.
\<close>

record SentPacketEntry =
  sp_message_ids :: "nat option"
  numMessage_ids :: nat
  acked :: bool
  sp_block :: bool
  sp_block_message_id :: u16
  sp_block_fragment_id :: u16
  time_sent :: int

record SendBlockData =
  active :: bool
  sb_block_size :: int
  number_of_fragments :: int
  number_of_acked_fragments :: int
  sb_block_message_id :: u16
  acked_fragment :: "bool list"
  fragment_send_time :: "nat list"

text \<open>
  The state of the channel for all connections, with the global allocator.  The
  receive-side block data is left out: \<^verbatim>\<open>ProcessPacketData\<close>, as written, never reads a
  block flag and never reaches it.
\<close>

record ReliableOrderedChannel =
  m_error_level_array :: "ErrorLevel list"
  m_send_message_ids :: "u16 list"
  m_receive_message_ids :: "u16 list"
  m_oldest_unacked_message_ids :: "u16 list"
  m_sent_packets :: "SentPacketEntry ReliableBuffer"
  m_message_send_queues :: "MessageSendQueueEntry ReliableBuffer"
  m_message_receive_queues :: "MessageReceiveQueueEntry ReliableBuffer"
  m_sent_packet_message_ids_array :: "u16 list"
  m_send_blocks :: "SendBlockData list"
  m_counters_array :: "u64 list"
  live :: "nat set"

definition the_default :: "'b \<Rightarrow> 'b option \<Rightarrow> 'b" where
  "the_default d x = (case x of None \<Rightarrow> d | Some y \<Rightarrow> y)"

definition GetErrorLevel :: "ReliableOrderedChannel \<Rightarrow> nat \<Rightarrow> ErrorLevel" where
  "GetErrorLevel ch c = m_error_level_array ch ! c"

definition SetErrorLevel :: "ReliableOrderedChannel \<Rightarrow> nat \<Rightarrow> ErrorLevel \<Rightarrow> ReliableOrderedChannel" where
  "SetErrorLevel ch c error_level =
     ch \<lparr> m_error_level_array := (m_error_level_array ch)[c := error_level] \<rparr>"

definition HasMessagesToSend :: "ReliableOrderedChannel \<Rightarrow> nat \<Rightarrow> bool" where
  "HasMessagesToSend ch c = (m_oldest_unacked_message_ids ch ! c \<noteq> m_send_message_ids ch ! c)"

definition CanSendMessage :: "ChannelConfig \<Rightarrow> ReliableOrderedChannel \<Rightarrow> nat \<Rightarrow> bool" where
  "CanSendMessage cfg ch c =
     Available (message_send_queue_size cfg) (m_message_send_queues ch) c (m_send_message_ids ch ! c)"

text \<open>
  \<^verbatim>\<open>SendMessage\<close>.  \<open>None\<close> is a failed \<^verbatim>\<open>ASSERT_CRASH\<close>.  The source calls
  \<^verbatim>\<open>m_message_send_queues.Insert(m_send_message_ids[connection_index], connection_index)\<close>:
  the send id is passed as the connection index and the connection index as the
  sequence, and the model keeps the arguments as they stand.  The line
  \<^verbatim>\<open>message->m_packet_sequence = \<dots>\<close> stores the send id in the message; the field is
  \<open>message_id\<close> in \<^verbatim>\<open>ChannelMessage\<close>.
\<close>

definition SendMessage ::
  "ChannelConfig \<Rightarrow> Env \<Rightarrow> ReliableOrderedChannel \<Rightarrow> nat \<Rightarrow> ChannelMessage \<Rightarrow>
   ReliableOrderedChannel option" where
  "SendMessage cfg env ch c message =
     (if \<not> c < max_connection_count cfg then None
      else if GetErrorLevel ch c \<noteq> ERROR_NONE
      then Some (ch \<lparr> live := Release (message_data message) (live ch) \<rparr>)
      else if \<not> CanSendMessage cfg ch c
      then Some ((SetErrorLevel ch c CHANNEL_ERROR_SEND_QUEUE_FULL)
                   \<lparr> live := Release (message_data message) (live ch) \<rparr>)
      else
        let message1 = message \<lparr> message_id := m_send_message_ids ch ! c \<rparr>;
            ins = Insert (message_send_queue_size cfg) (m_message_send_queues ch)
                    (unat (m_send_message_ids ch ! c)) (of_nat c)
        in if \<not> unat (m_send_message_ids ch ! c) < max_connection_count cfg then None
           else case snd ins of
             None \<Rightarrow> None
           | Some e \<Rightarrow>
               if is_block message1 \<and>
                       \<not> (0 < unat (block_size message1) \<and>
                          unat (block_size message1) \<le>
                            max_number_of_fragments cfg * max_fragment_size cfg)
               then None
               else
                 let q = fst ins;
                     entry = \<lparr> se_channel_message = message1,
                               measuredBits = GetMessageSizeInBits env (message_protocol message1),
                               block = is_block message1,
                               time_last_sent = - 1 \<rparr>;
                     i = c * CHANNEL_COUNTER_NUMBER_OF_COUNTERS + CHANNEL_COUNTER_MESSAGES_SENT
                 in Some (ch \<lparr> m_message_send_queues := q \<lparr> m_entry_data := (m_entry_data q)[e := entry] \<rparr>,
                               m_counters_array := (m_counters_array ch)[i := m_counters_array ch ! i + 1],
                               m_send_message_ids :=
                                 (m_send_message_ids ch)[c := m_send_message_ids ch ! c + 1] \<rparr>))"

text \<open>\<^verbatim>\<open>ReceiveMessage\<close>: the result \<open>false\<close> is \<open>Some (ch, None)\<close>.\<close>

definition ReceiveMessage ::
  "ChannelConfig \<Rightarrow> ReliableOrderedChannel \<Rightarrow> nat \<Rightarrow>
   (ReliableOrderedChannel \<times> ChannelMessage option) option" where
  "ReceiveMessage cfg ch c =
     (if \<not> c < max_connection_count cfg then None
      else if GetErrorLevel ch c \<noteq> ERROR_NONE then Some (ch, None)
      else
        case Find (message_receive_queue_size cfg) (m_message_receive_queues ch) c
               (m_receive_message_ids ch ! c) of
          None \<Rightarrow> Some (ch, None)
        | Some e \<Rightarrow>
            let message = re_channel_message (m_entry_data (m_message_receive_queues ch) ! e)
            in if message_id message \<noteq> m_receive_message_ids ch ! c then None
               else
                 let i = c * CHANNEL_COUNTER_NUMBER_OF_COUNTERS + CHANNEL_COUNTER_MESSAGES_RECEIVED
                 in Some (ch \<lparr> m_message_receive_queues :=
                                  Remove (message_receive_queue_size cfg)
                                    (m_message_receive_queues ch) c (m_receive_message_ids ch ! c),
                                m_counters_array :=
                                  (m_counters_array ch)[i := m_counters_array ch ! i + 1],
                                m_receive_message_ids :=
                                  (m_receive_message_ids ch)[c := m_receive_message_ids ch ! c + 1] \<rparr>,
                          Some message))"

text \<open>
  \<^verbatim>\<open>UpdateOldestUnackedMessageID\<close>: the \<^verbatim>\<open>while (true)\<close> loop walks the 16-bit id
  forward until it meets \<open>stop_message_id\<close> or an id that is in the send queue.  It
  ends, because the distance to \<open>stop_message_id\<close> shrinks with every step.
\<close>

function walk_oldest_unacked ::
  "nat \<Rightarrow> MessageSendQueueEntry ReliableBuffer \<Rightarrow> nat \<Rightarrow> u16 \<Rightarrow> u16 \<Rightarrow> u16" where
  "walk_oldest_unacked N q c stop_message_id oldest =
     (if oldest = stop_message_id \<or> Find N q c oldest \<noteq> None then oldest
      else walk_oldest_unacked N q c stop_message_id (oldest + 1))"
  by pat_completeness auto
termination
proof (relation "measure (\<lambda>(N, q, c, stop_message_id, oldest). unat (stop_message_id - oldest))")
  show "wf (measure (\<lambda>(N, q, c, stop_message_id, oldest). unat (stop_message_id - oldest)))"
    by simp
next
  fix N :: nat and q :: "MessageSendQueueEntry ReliableBuffer" and c :: nat
    and stop_message_id oldest :: u16
  assume "\<not> (oldest = stop_message_id \<or> Find N q c oldest \<noteq> None)"
  then have ne: "stop_message_id - oldest \<noteq> 0" by auto
  have "stop_message_id - (oldest + 1) = (stop_message_id - oldest) - 1" by simp
  moreover have "unat ((stop_message_id - oldest) - 1) = unat (stop_message_id - oldest) - 1"
    using ne by (rule unat_minus_one)
  ultimately have "unat (stop_message_id - (oldest + 1)) = unat (stop_message_id - oldest) - 1"
    by (simp only:)
  moreover have "unat (stop_message_id - oldest) \<noteq> 0"
    using ne by (simp add: unat_eq_zero)
  ultimately show "((N, q, c, stop_message_id, oldest + 1), (N, q, c, stop_message_id, oldest))
      \<in> measure (\<lambda>(N, q, c, stop_message_id, oldest). unat (stop_message_id - oldest))"
    by simp
qed

declare walk_oldest_unacked.simps [simp del]

definition UpdateOldestUnackedMessageID ::
  "ChannelConfig \<Rightarrow> ReliableOrderedChannel \<Rightarrow> nat \<Rightarrow> ReliableOrderedChannel option" where
  "UpdateOldestUnackedMessageID cfg ch c =
     (let stop_message_id = GetSequence (m_message_send_queues ch) c;
          oldest = walk_oldest_unacked (message_send_queue_size cfg) (m_message_send_queues ch) c
                     stop_message_id (m_oldest_unacked_message_ids ch ! c)
      in if SequenceGreaterThan oldest stop_message_id then None
         else Some (ch \<lparr> m_oldest_unacked_message_ids :=
                           (m_oldest_unacked_message_ids ch)[c := oldest] \<rparr>))"

text \<open>
  \<^verbatim>\<open>ProcessAcknowledgement\<close>.  \<open>ack_message\<close> is the body of the loop over the message
  ids of the acked packet; \<open>ack_fragment\<close> is the block part that follows the loop.
\<close>

definition ack_message ::
  "ChannelConfig \<Rightarrow> nat \<Rightarrow> u16 \<Rightarrow> ReliableOrderedChannel option \<Rightarrow> ReliableOrderedChannel option" where
  "ack_message cfg c mid st =
     (case st of
        None \<Rightarrow> None
      | Some ch \<Rightarrow>
          (case Find (message_send_queue_size cfg) (m_message_send_queues ch) c mid of
             None \<Rightarrow> Some ch
           | Some e \<Rightarrow>
               let message = se_channel_message (m_entry_data (m_message_send_queues ch) ! e)
               in if message_data message = None then None
                  else if message_id message \<noteq> mid then None
                  else UpdateOldestUnackedMessageID cfg
                         (ch \<lparr> live := Release (message_data message) (live ch),
                               m_message_send_queues :=
                                 Remove (message_send_queue_size cfg) (m_message_send_queues ch) c mid \<rparr>)
                         c))"

definition ack_fragment ::
  "ChannelConfig \<Rightarrow> nat \<Rightarrow> SentPacketEntry \<Rightarrow> ReliableOrderedChannel \<Rightarrow>
   ReliableOrderedChannel option" where
  "ack_fragment cfg c sent ch =
     (let send_block = m_send_blocks ch ! c
      in if sp_block sent \<and> active send_block \<and>
            sb_block_message_id send_block = sp_block_message_id sent
         then
           let messageId = sp_block_message_id sent;
               fragmentId = unat (sp_block_fragment_id sent)
           in if \<not> acked_fragment send_block ! fragmentId
              then
                let sb1 = send_block
                            \<lparr> acked_fragment := (acked_fragment send_block)[fragmentId := True],
                              number_of_acked_fragments := number_of_acked_fragments send_block + 1 \<rparr>
                in if number_of_acked_fragments sb1 = number_of_fragments sb1
                   then
                     let ch1 = ch \<lparr> m_send_blocks := (m_send_blocks ch)[c := sb1 \<lparr> active := False \<rparr>] \<rparr>
                     in case Find (message_send_queue_size cfg) (m_message_send_queues ch1) c messageId of
                          None \<Rightarrow> None
                        | Some e \<Rightarrow>
                            UpdateOldestUnackedMessageID cfg
                              (ch1 \<lparr> live := Release
                                        (message_data (se_channel_message
                                           (m_entry_data (m_message_send_queues ch1) ! e)))
                                        (live ch1),
                                     m_message_send_queues :=
                                       Remove (message_send_queue_size cfg)
                                         (m_message_send_queues ch1) c messageId \<rparr>)
                              c
                   else Some (ch \<lparr> m_send_blocks := (m_send_blocks ch)[c := sb1] \<rparr>)
              else Some ch
         else Some ch)"

definition ProcessAcknowledgement ::
  "ChannelConfig \<Rightarrow> ReliableOrderedChannel \<Rightarrow> nat \<Rightarrow> u16 \<Rightarrow> ReliableOrderedChannel option" where
  "ProcessAcknowledgement cfg ch c sequence =
     (if \<not> c < max_connection_count cfg then None
      else
        case Find (message_sent_queue_size cfg) (m_sent_packets ch) c sequence of
          None \<Rightarrow> Some ch
        | Some e \<Rightarrow>
            let sent = m_entry_data (m_sent_packets ch) ! e
            in if acked sent then None
               else
                 (case fold (\<lambda>i st. ack_message cfg c
                               (m_sent_packet_message_ids_array ch ! (the_default 0 (sp_message_ids sent) + i))
                               st)
                         [0..<numMessage_ids sent] (Some ch) of
                    None \<Rightarrow> None
                  | Some ch1 \<Rightarrow> ack_fragment cfg c sent ch1))"

text \<open>
  \<^verbatim>\<open>SendingBlockMessage\<close>: \<open>None\<close> is the failed \<^verbatim>\<open>ASSERT_CRASH(HasMessagesToSend(\<dots>))\<close>.
\<close>

definition SendingBlockMessage :: "ChannelConfig \<Rightarrow> ReliableOrderedChannel \<Rightarrow> nat \<Rightarrow> bool option" where
  "SendingBlockMessage cfg ch c =
     (if \<not> HasMessagesToSend ch c then None
      else case Find (message_send_queue_size cfg) (m_message_send_queues ch) c
                  (m_oldest_unacked_message_ids ch ! c) of
             None \<Rightarrow> Some False
           | Some e \<Rightarrow> Some (block (m_entry_data (m_message_send_queues ch) ! e)))"

text \<open>
  \<^verbatim>\<open>GetMessagesToSend\<close>.  The state of its \<^verbatim>\<open>for\<close> loop: the channel (the loop stamps
  \<open>time_last_sent\<close>), the output array and its fill count, and the three local
  counters, all \<^verbatim>\<open>int\<close>.  \<open>scan_messages\<close> is the loop over the remaining values of
  \<open>i\<close>; a \<^verbatim>\<open>break\<close> returns the state, a \<^verbatim>\<open>continue\<close> goes on with the rest.  The source
  names the resend time \<^verbatim>\<open>message_resend_time\<close> and the width of a relative id
  \<^verbatim>\<open>BitRequiredToSerializeSequenceRelative\<close>; they are the template parameter
  \<open>message_resend_time_milliseconds\<close> and \<open>GetRelativeSequenceEncodingBits\<close>.
\<close>

record SendScan =
  ss_channel :: ReliableOrderedChannel
  ss_messageIds :: "u16 list"
  ss_numMessageIds :: nat
  ss_previousMessageId :: u16
  ss_usedBits :: int
  ss_giveUpCounter :: int

fun scan_messages ::
  "ChannelConfig \<Rightarrow> Env \<Rightarrow> nat \<Rightarrow> int \<Rightarrow> nat list \<Rightarrow> SendScan \<Rightarrow> SendScan" where
  "scan_messages cfg env c available_bits [] st = st"
| "scan_messages cfg env c available_bits (i # rest) st =
     (let message_type_bits = int (BitsRequired 0 (of_nat (max_message_type_number cfg)));
          giveUpBits = message_type_bits + 4 * 8;
          ch = ss_channel st
      in if available_bits - ss_usedBits st < giveUpBits then st
         else if ss_giveUpCounter st > int (message_send_queue_size cfg) then st
         else
           let messageId = m_oldest_unacked_message_ids ch ! c + of_nat i
           in case Find (message_send_queue_size cfg) (m_message_send_queues ch) c messageId of
                None \<Rightarrow> scan_messages cfg env c available_bits rest st
              | Some e \<Rightarrow>
                  let entry = m_entry_data (m_message_send_queues ch) ! e
                  in if block entry then st
                     else if time_last_sent entry + message_resend_time_milliseconds cfg \<le> GetTime env \<and>
                             available_bits \<ge> int (measuredBits entry)
                     then
                       let messageBits =
                             int (measuredBits entry) + message_type_bits +
                             (if ss_numMessageIds st = 0 then 16
                              else int (GetRelativeSequenceEncodingBits
                                          (ss_previousMessageId st) messageId))
                       in if ss_usedBits st + messageBits > available_bits
                          then scan_messages cfg env c available_bits rest
                                 (st \<lparr> ss_giveUpCounter := ss_giveUpCounter st + 1 \<rparr>)
                          else
                            let q = m_message_send_queues ch;
                                st1 = st \<lparr> ss_usedBits := ss_usedBits st + messageBits,
                                          ss_messageIds :=
                                            (ss_messageIds st)[ss_numMessageIds st := messageId],
                                          ss_numMessageIds := ss_numMessageIds st + 1,
                                          ss_previousMessageId := messageId,
                                          ss_channel :=
                                            ch \<lparr> m_message_send_queues :=
                                                   q \<lparr> m_entry_data :=
                                                         (m_entry_data q)
                                                           [e := entry \<lparr> time_last_sent := GetTime env \<rparr>] \<rparr> \<rparr> \<rparr>
                            in if ss_numMessageIds st1 = max_messages_per_packet cfg then st1
                               else scan_messages cfg env c available_bits rest st1
                     else if ss_numMessageIds st = max_messages_per_packet cfg then st
                     else scan_messages cfg env c available_bits rest st)"

definition GetMessagesToSend ::
  "ChannelConfig \<Rightarrow> Env \<Rightarrow> ReliableOrderedChannel \<Rightarrow> nat \<Rightarrow> u16 list \<Rightarrow> int \<Rightarrow> SendScan option" where
  "GetMessagesToSend cfg env ch c messageIds available_bits0 =
     (if \<not> c < max_connection_count cfg then None
      else if \<not> HasMessagesToSend ch c then None
      else
        let message_limit = min (message_send_queue_size cfg) (message_receive_queue_size cfg);
            available_bits = (if packet_budget cfg > 0
                              then min (packet_budget cfg * 8) available_bits0
                              else available_bits0)
        in Some (scan_messages cfg env c available_bits [0..<message_limit]
                   \<lparr> ss_channel = ch, ss_messageIds = messageIds, ss_numMessageIds = 0,
                     ss_previousMessageId = 0, ss_usedBits = 0, ss_giveUpCounter = 0 \<rparr>))"

text \<open>
  \<^verbatim>\<open>GetMessagePacketData\<close>: the loop runs over the whole array \<open>message_ids\<close>
  (\<^verbatim>\<open>for (std::uint16_t message_id : message_ids)\<close>), and each id must be in the send
  queue with data attached, or an \<^verbatim>\<open>ASSERT_CRASH\<close> fails.
\<close>

definition write_message ::
  "ChannelConfig \<Rightarrow> Env \<Rightarrow> ReliableOrderedChannel \<Rightarrow> nat \<Rightarrow> u16 \<Rightarrow> BitWriter option \<Rightarrow>
   BitWriter option" where
  "write_message cfg env ch c mid st =
     (case st of
        None \<Rightarrow> None
      | Some w \<Rightarrow>
          (case Find (message_send_queue_size cfg) (m_message_send_queues ch) c mid of
             None \<Rightarrow> None
           | Some e \<Rightarrow>
               let message = se_channel_message (m_entry_data (m_message_send_queues ch) ! e)
               in if message_data message = None then None
                  else Some (SerialiseMessage env message w)))"

definition GetMessagePacketData ::
  "ChannelConfig \<Rightarrow> Env \<Rightarrow> ReliableOrderedChannel \<Rightarrow> nat \<Rightarrow> BitWriter \<Rightarrow> u16 list \<Rightarrow> nat \<Rightarrow>
   BitWriter option" where
  "GetMessagePacketData cfg env ch c stream message_ids number_of_message_ids =
     (if \<not> c < max_connection_count cfg then None
      else if \<not> number_of_message_ids > 0 then None
      else
        let w1 = SerialiseInteger stream (int (channel_index cfg)) 0 (number_of_channels cfg - 1);
            w2 = SerialiseBits w1 0 1;
            w3 = SerialiseBits w2 1 1;
            w4 = SerialiseInteger w3 (int number_of_message_ids) 1 (max_messages_per_packet cfg)
        in fold (write_message cfg env ch c) message_ids (Some w4))"

definition AddMessagePacketEntry ::
  "ChannelConfig \<Rightarrow> Env \<Rightarrow> ReliableOrderedChannel \<Rightarrow> nat \<Rightarrow> u16 list \<Rightarrow> nat \<Rightarrow> u16 \<Rightarrow>
   ReliableOrderedChannel option" where
  "AddMessagePacketEntry cfg env ch c message_ids numMessageIds sequence =
     (if \<not> c < max_connection_count cfg then None
      else
        let ins = Insert (message_sent_queue_size cfg) (m_sent_packets ch) c sequence
        in case snd ins of
             None \<Rightarrow> None
           | Some e \<Rightarrow>
               let q = fst ins;
                   offset = c * max_messages_per_packet cfg +
                            (unat sequence mod message_sent_queue_size cfg) *
                              max_messages_per_packet cfg;
                   sent = (m_entry_data q ! e)
                            \<lparr> acked := False, sp_block := False, time_sent := GetTime env,
                              sp_message_ids := Some offset, numMessage_ids := numMessageIds \<rparr>
               in Some (ch \<lparr> m_sent_packets := q \<lparr> m_entry_data := (m_entry_data q)[e := sent] \<rparr>,
                             m_sent_packet_message_ids_array :=
                               fold (\<lambda>i a. a[offset + i := message_ids ! i]) [0..<numMessageIds]
                                 (m_sent_packet_message_ids_array ch) \<rparr>))"

text \<open>
  \<^verbatim>\<open>GetPacketData\<close>.  The result is the channel, the stream and the returned bit count;
  \<open>None\<close> is a failed \<^verbatim>\<open>ASSERT_CRASH\<close>.  \<open>available_bits\<close> is a \<^verbatim>\<open>std::uint32_t\<close>, and
  the comparisons and subtractions with the \<^verbatim>\<open>int\<close> constants are unsigned 32-bit
  operations; \<^verbatim>\<open>GetMessagesToSend\<close> receives it converted to \<^verbatim>\<open>int\<close>.  \<open>message_ids0\<close>
  is the indeterminate initial content of the local array \<open>message_ids\<close>, of length
  \<open>max_messages_per_packet\<close>.  The block branch after its budget test
  (\<^verbatim>\<open>GetFragmentToSend\<close>, \<^verbatim>\<open>GetFragmentPacketData\<close>, \<^verbatim>\<open>AddFragmentPacketEntry\<close>) is the
  argument \<open>fragment_branch\<close>: it takes the channel, the stream, the packet sequence
  and the remaining budget.
\<close>

definition GetPacketData ::
  "ChannelConfig \<Rightarrow> Env \<Rightarrow>
   (ReliableOrderedChannel \<Rightarrow> BitWriter \<Rightarrow> u16 \<Rightarrow> u32 \<Rightarrow> (ReliableOrderedChannel \<times> BitWriter \<times> int) option) \<Rightarrow>
   ReliableOrderedChannel \<Rightarrow> nat \<Rightarrow> BitWriter \<Rightarrow> u16 \<Rightarrow> u32 \<Rightarrow> u16 list \<Rightarrow>
   (ReliableOrderedChannel \<times> BitWriter \<times> int) option" where
  "GetPacketData cfg env fragment_branch ch c stream packet_sequence available_bits0 message_ids0 =
     (let channel_index_bits = BitsRequired 0 (of_nat (number_of_channels cfg));
          number_of_messages_bits = BitsRequired 0 (of_nat (max_messages_per_packet cfg))
      in if \<not> c < max_connection_count cfg then None
         else if \<not> HasMessagesToSend ch c then Some (ch, stream, 0)
         else if available_bits0 > of_nat channel_index_bits then Some (ch, stream, 0)
         else
           let available_bits1 = available_bits0 - of_nat channel_index_bits
           in case SendingBlockMessage cfg ch c of
                None \<Rightarrow> None
              | Some True \<Rightarrow>
                  if (of_nat (max_fragment_size cfg * 8 + 1) :: u32) > available_bits1
                  then Some (ch, stream, 0)
                  else fragment_branch ch stream packet_sequence
                         (available_bits1 - of_nat (max_fragment_size cfg * 8 + 1))
              | Some False \<Rightarrow>
                  if available_bits1 < of_nat (number_of_messages_bits + 1 + 1)
                  then Some (ch, stream, 0)
                  else
                    let available_bits2 =
                          available_bits1 -
                          of_nat (channel_index_bits + number_of_messages_bits + 1 + 1)
                    in (case GetMessagesToSend cfg env ch c message_ids0 (sint available_bits2) of
                         None \<Rightarrow> None
                       | Some scan \<Rightarrow>
                           if ss_numMessageIds scan > 0
                           then
                             (case GetMessagePacketData cfg env (ss_channel scan) c stream
                                     (ss_messageIds scan) (ss_numMessageIds scan) of
                                None \<Rightarrow> None
                              | Some w \<Rightarrow>
                                  (case AddMessagePacketEntry cfg env (ss_channel scan) c
                                          (ss_messageIds scan) (ss_numMessageIds scan)
                                          packet_sequence of
                                     None \<Rightarrow> None
                                   | Some ch1 \<Rightarrow> Some (ch1, w, ss_usedBits scan)))
                           else Some (ss_channel scan, stream, 0)))"

text \<open>
  \<^verbatim>\<open>ProcessPacketData\<close>.  \<open>read_relative_ids k prev\<close> is the loop that reads \<open>k\<close> more ids,
  each relative to the one before; \<open>process_messages\<close> is the loop over the decoded
  ids.  Its result \<open>None\<close> is a failed \<^verbatim>\<open>ASSERT_CRASH\<close>; a \<^verbatim>\<open>return\<close> ends it with the
  state reached.  The array \<open>message_ids\<close> is allocated and released inside the
  function and is a local list here.
\<close>

fun read_relative_ids :: "nat \<Rightarrow> u16 \<Rightarrow> BitReader \<Rightarrow> u16 list option \<times> BitReader" where
  "read_relative_ids 0 prev r = (Some [], r)"
| "read_relative_ids (Suc k) prev r =
     (case DeserialiseSequenceRelative r prev of
        (None, r1) \<Rightarrow> (None, r1)
      | (Some x, r1) \<Rightarrow>
          (case read_relative_ids k x r1 of
             (None, r2) \<Rightarrow> (None, r2)
           | (Some xs, r2) \<Rightarrow> (Some (x # xs), r2)))"

fun process_messages ::
  "ChannelConfig \<Rightarrow> Env \<Rightarrow> nat \<Rightarrow> u16 \<Rightarrow> u16 \<Rightarrow> u16 list \<Rightarrow> ReliableOrderedChannel \<times> BitReader \<Rightarrow>
   (ReliableOrderedChannel \<times> BitReader) option" where
  "process_messages cfg env c min_message_id max_message_id [] st = Some st"
| "process_messages cfg env c min_message_id max_message_id (mid # rest) st =
     (let ch = fst st; r = snd st
      in case DeserialiseInteger r 0 (max_message_type_number cfg) of
           (None, r1) \<Rightarrow> Some (SetErrorLevel ch c CHANNEL_ERROR_FAILED_TO_SERIALISE, r1)
         | (Some protocol, r1) \<Rightarrow>
             if SequenceLessThan mid min_message_id
             then process_messages cfg env c min_message_id max_message_id rest (ch, r1)
             else if SequenceGreaterThan mid max_message_id
             then Some (SetErrorLevel ch c CHANNEL_ERROR_DESYNC, r1)
             else if Find (message_receive_queue_size cfg) (m_message_receive_queues ch) c mid \<noteq> None
             then process_messages cfg env c min_message_id max_message_id rest (ch, r1)
             else if GetAtIndex (message_receive_queue_size cfg) (m_message_receive_queues ch) c
                       (unat mid mod message_receive_queue_size cfg) \<noteq> None
             then None
             else
               let ins = Insert (message_receive_queue_size cfg) (m_message_receive_queues ch) c mid
               in (case snd ins of
                    None \<Rightarrow> Some (SetErrorLevel ch c CHANNEL_ERROR_DESYNC, r1)
                  | Some e \<Rightarrow>
                      let q = fst ins;
                          res = DeserialiseMessage env (re_channel_message (m_entry_data q ! e)) r1;
                          q1 = q \<lparr> m_entry_data :=
                                     (m_entry_data q)[e := \<lparr> re_channel_message = fst (snd res) \<rparr>] \<rparr>;
                          ch1 = ch \<lparr> m_message_receive_queues := q1 \<rparr>
                      in if \<not> fst res
                         then Some (SetErrorLevel ch1 c CHANNEL_ERROR_FAILED_TO_SERIALISE, snd (snd res))
                         else process_messages cfg env c min_message_id max_message_id rest
                                (ch1, snd (snd res))))"

definition ProcessPacketData ::
  "ChannelConfig \<Rightarrow> Env \<Rightarrow> ReliableOrderedChannel \<Rightarrow> nat \<Rightarrow> BitReader \<Rightarrow> u16 \<Rightarrow>
   (ReliableOrderedChannel \<times> BitReader) option" where
  "ProcessPacketData cfg env ch c packet_data packet_sequence =
     (if \<not> c < max_connection_count cfg then None
      else if m_error_level_array ch ! c \<noteq> ERROR_NONE then Some (ch, packet_data)
      else
        let min_message_id = m_receive_message_ids ch ! c;
            max_message_id = m_receive_message_ids ch ! c +
                             of_nat (message_receive_queue_size cfg) - 1
        in case DeserialiseInteger packet_data 0 (max_messages_per_packet cfg) of
             (None, r1) \<Rightarrow> Some (SetErrorLevel ch c CHANNEL_ERROR_FAILED_TO_SERIALISE, r1)
           | (Some number_of_messages, r1) \<Rightarrow>
               (case DeserialiseBits r1 16 of
                  (None, r2) \<Rightarrow> Some (SetErrorLevel ch c CHANNEL_ERROR_FAILED_TO_SERIALISE, r2)
                | (Some first, r2) \<Rightarrow>
                    (case read_relative_ids (nat number_of_messages - 1) (ucast first) r2 of
                       (None, r3) \<Rightarrow> Some (SetErrorLevel ch c CHANNEL_ERROR_FAILED_TO_SERIALISE, r3)
                     | (Some ids, r3) \<Rightarrow>
                         process_messages cfg env c min_message_id max_message_id
                           (take (nat number_of_messages) (ucast first # ids)) (ch, r3))))"

section \<open>A small channel instance\<close>

text \<open>
  One connection, queues of four entries, at most two messages per packet, two
  channels of which this is channel 1.  The handler measures every message at 4 bits
  and writes the four bits \<open>1001\<close> for it; reading a message takes 4 bits.
\<close>

definition cfg_example :: ChannelConfig where
  "cfg_example =
     \<lparr> max_connection_count = 1, message_resend_time_milliseconds = 100,
       message_send_queue_size = 4, message_receive_queue_size = 4,
       message_sent_queue_size = 4, max_messages_per_packet = 2, packet_budget = - 1,
       max_message_type_number = 65535, max_number_of_fragments = 4,
       max_fragment_size = 1024, fragment_resend_time_milliseconds = 250,
       number_of_channels = 2, channel_index = 1 \<rparr>"

definition env_example :: Env where
  "env_example =
     \<lparr> GetTime = 1000,
       GetMessageSizeInBits = (\<lambda>protocol. 4),
       SerialiseMessage = (\<lambda>message w. WriteBits w 9 4),
       DeserialiseMessage =
         (\<lambda>message r.
            if WouldReadPastEnd r 4 then (False, message, r)
            else (True, message, snd (ReadBits r 4))) \<rparr>"

definition no_message :: ChannelMessage where
  "no_message =
     \<lparr> message_protocol = 0, message_id = 0, is_block = False, block_offset = 0,
       block_size = 0, message_data = None \<rparr>"

definition no_send_entry :: MessageSendQueueEntry where
  "no_send_entry =
     \<lparr> se_channel_message = no_message, measuredBits = 0, block = False, time_last_sent = 0 \<rparr>"

definition no_sent_packet :: SentPacketEntry where
  "no_sent_packet =
     \<lparr> sp_message_ids = None, numMessage_ids = 0, acked = False, sp_block = False,
       sp_block_message_id = 0, sp_block_fragment_id = 0, time_sent = 0 \<rparr>"

definition no_send_block :: SendBlockData where
  "no_send_block =
     \<lparr> active = False, sb_block_size = 0, number_of_fragments = 0,
       number_of_acked_fragments = 0, sb_block_message_id = 0,
       acked_fragment = replicate 4 False, fragment_send_time = replicate 4 0 \<rparr>"

text \<open>The channel after \<^verbatim>\<open>ResetAll\<close>: nothing queued, every id 0, no error.\<close>

definition idle_example :: ReliableOrderedChannel where
  "idle_example =
     \<lparr> m_error_level_array = [ERROR_NONE],
       m_send_message_ids = [0], m_receive_message_ids = [0],
       m_oldest_unacked_message_ids = [0],
       m_sent_packets = ResetAll_buffer 4 1 no_sent_packet,
       m_message_send_queues = ResetAll_buffer 4 1 no_send_entry,
       m_message_receive_queues = ResetAll_buffer 4 1 \<lparr> re_channel_message = no_message \<rparr>,
       m_sent_packet_message_ids_array = replicate 8 0,
       m_send_blocks = [no_send_block],
       m_counters_array = [0, 0],
       live = {} \<rparr>"

text \<open>
  A sender in the middle of a session: messages 0 to 4 are acked, the regular messages
  5 and 6 (protocol 7, data at the addresses 100 and 101) wait in the send queue and
  have never been sent, the next id is 7.
\<close>

definition queued_message :: "u16 \<Rightarrow> nat \<Rightarrow> MessageSendQueueEntry" where
  "queued_message mid address =
     \<lparr> se_channel_message =
         \<lparr> message_protocol = 7, message_id = mid, is_block = False, block_offset = 0,
           block_size = 0, message_data = Some address \<rparr>,
       measuredBits = 4, block = False, time_last_sent = - 1 \<rparr>"

definition sender_example :: ReliableOrderedChannel where
  "sender_example =
     idle_example
       \<lparr> m_send_message_ids := [7], m_oldest_unacked_message_ids := [5],
         m_message_send_queues :=
           \<lparr> m_sequence = [7],
             m_entry_sequence = [EMPTY_ENTRY, 5, 6, EMPTY_ENTRY],
             m_entry_data = [no_send_entry, queued_message 5 100, queued_message 6 101,
                             no_send_entry] \<rparr>,
         live := {100, 101} \<rparr>"

text \<open>
  The same sender after packet 3 went out carrying message 5, and after the channel
  fell into the error state \<open>Desync\<close>.
\<close>

definition error_example :: ReliableOrderedChannel where
  "error_example =
     sender_example
       \<lparr> m_error_level_array := [CHANNEL_ERROR_DESYNC],
         m_sent_packets :=
           \<lparr> m_sequence = [4],
             m_entry_sequence = [EMPTY_ENTRY, EMPTY_ENTRY, EMPTY_ENTRY, 3],
             m_entry_data = [no_sent_packet, no_sent_packet, no_sent_packet,
                             no_sent_packet \<lparr> sp_message_ids := Some 6, numMessage_ids := 1,
                                              time_sent := 900 \<rparr>] \<rparr>,
         m_sent_packet_message_ids_array := [0, 0, 0, 0, 0, 0, 5, 0] \<rparr>"

text \<open>
  The peer of that sender: it has delivered the messages 0 to 4 and waits for 5.
\<close>

definition receiver_example :: ReliableOrderedChannel where
  "receiver_example =
     idle_example
       \<lparr> m_receive_message_ids := [5],
         m_message_receive_queues :=
           (ResetAll_buffer 4 1 \<lparr> re_channel_message = no_message \<rparr>) \<lparr> m_sequence := [5] \<rparr> \<rparr>"

text \<open>
  The payload that \<^verbatim>\<open>GetMessagePacketData\<close> writes for the messages 5 and 6 of the
  sender into a zeroed 16-byte buffer, flushed; and a reader over the bytes written,
  moved past the three leading bits (channel index, block flag, has-messages flag) that
  belong to the layer above \<^verbatim>\<open>ProcessPacketData\<close>.
\<close>

definition payload_example :: "BitWriter option" where
  "payload_example =
     map_option FlushBits
       (GetMessagePacketData cfg_example env_example sender_example 0
          (BitWriter_new [0, 0, 0, 0] 16) [5, 6] 2)"

definition payload_reader :: "BitWriter \<Rightarrow> BitReader" where
  "payload_reader w =
     snd (ReadBits (snd (ReadBits (snd (ReadBits
       (BitReader_new (bw_data w) (GetBytesWritten w)) 1)) 1)) 1)"

section \<open>Sequence comparison\<close>

lemma unat_of_nat16: "unat (of_nat n :: u16) = n mod 65536"
  by (simp add: unat_of_nat)

lemma SequenceGreaterThan_unat:
  "SequenceGreaterThan s1 s2 =
     ((unat s2 < unat s1 \<and> unat s1 - unat s2 \<le> 32768) \<or>
      (unat s1 < unat s2 \<and> unat s2 - unat s1 > 32768))"
proof -
  have u: "uint s1 = int (unat s1)" "uint s2 = int (unat s2)" by simp_all
  show ?thesis unfolding SequenceGreaterThan_def word_less_nat_alt u by arith
qed

text \<open>
  Claim C6, as stated, fails: for \<open>a = 32768\<close> and \<open>d = 32768\<close> the sum wraps to 0 and
  \<open>SequenceGreaterThan 0 32768\<close> is false, because the wrapped branch asks for a
  distance strictly above 32768.
\<close>

theorem SequenceGreaterThan_half_range_counterexample:
  "\<not> SequenceGreaterThan (of_nat ((32768 + 32768) mod 65536)) (of_nat 32768)"
  by (simp add: SequenceGreaterThan_def)

text \<open>
  Claim C6, amended: for every \<open>a\<close> in \<open>[0, 65535]\<close> and \<open>d\<close> in \<open>[1, 32768]\<close>,
  \<open>SequenceGreaterThan ((a + d) mod 65536) a\<close> holds exactly when \<open>d < 32768\<close> or
  \<open>a < 32768\<close>; in particular it holds for every \<open>d\<close> in \<open>[1, 32767]\<close>, and for
  \<open>d = 32768\<close> as long as the sum does not wrap.
\<close>

theorem SequenceGreaterThan_successors:
  "a < 65536 \<Longrightarrow> 1 \<le> d \<Longrightarrow> d \<le> 32768 \<Longrightarrow>
   SequenceGreaterThan (of_nat ((a + d) mod 65536)) (of_nat a) = (d < 32768 \<or> a < 32768)"
proof -
  assume a: "a < 65536" and d1: "1 \<le> d" and d2: "d \<le> 32768"
  define s1 :: u16 where "s1 = of_nat ((a + d) mod 65536)"
  define s2 :: u16 where "s2 = of_nat a"
  have ua: "unat s2 = a" using a unfolding s2_def unat_of_nat16 by simp
  have us: "unat s1 = (if a + d < 65536 then a + d else a + d - 65536)"
    unfolding s1_def unat_of_nat16 using a d2 by (simp add: mod_if)
  have "SequenceGreaterThan s1 s2 = (d < 32768 \<or> a < 32768)"
    unfolding SequenceGreaterThan_unat ua us using a d1 d2 by auto
  then show ?thesis unfolding s1_def s2_def .
qed

theorem SequenceGreaterThan_successors_witness:
  "(65535::nat) < 65536 \<and> (1::nat) \<le> 1 \<and> (1::nat) \<le> 32768 \<and>
   SequenceGreaterThan (of_nat ((65535 + 1) mod 65536)) (of_nat 65535)"
  using SequenceGreaterThan_successors [of 65535 1] by simp

section \<open>Relative sequence encoding width\<close>

text \<open>
  Claim C7: the five values for \<open>(100,101)\<close>, \<open>(100,102)\<close>, \<open>(100,105)\<close>,
  \<open>(65530,5)\<close> and \<open>(65000,1000)\<close> are as claimed, but for equal sequences the
  function adds 65536 to the second one, finds the difference 65536 below 69910 and
  answers \<open>6 + BitsRequired 4374 69909 = 22\<close>, not 32.
\<close>

theorem GetRelativeSequenceEncodingBits_values:
  "GetRelativeSequenceEncodingBits 100 101 = 1 \<and>
   GetRelativeSequenceEncodingBits 100 102 = 2 + BitsRequired 2 5 \<and>
   GetRelativeSequenceEncodingBits 100 105 = 2 + BitsRequired 2 5 \<and>
   GetRelativeSequenceEncodingBits 65530 5 = 3 + BitsRequired 6 21 \<and>
   GetRelativeSequenceEncodingBits 65000 1000 = 5 + BitsRequired 278 4373 \<and>
   GetRelativeSequenceEncodingBits 1000 1000 = 6 + BitsRequired 4374 69909 \<and>
   GetRelativeSequenceEncodingBits 1000 1000 = 22 \<and>
   GetRelativeSequenceEncodingBits 1000 1000 \<noteq> 32"
  by code_simp

section \<open>Sliding sequence buffer\<close>

lemma length_fold_update [simp]:
  "length (fold (\<lambda>s es. es[f s := E]) xs es) = length es"
  by (induction xs arbitrary: es) simp_all

lemma nth_fold_update:
  "j < length es \<Longrightarrow>
     fold (\<lambda>s es. es[f s := E]) xs es ! j = (if j \<in> f ` set xs then E else es ! j)"
proof (induction xs arbitrary: es)
  case Nil
  show ?case by simp
next
  case (Cons x xs)
  have "fold (\<lambda>s es. es[f s := E]) (x # xs) es ! j =
        fold (\<lambda>s es. es[f s := E]) xs (es[f x := E]) ! j" by simp
  also have "\<dots> = (if j \<in> f ` set xs then E else es[f x := E] ! j)"
    using Cons.IH [of "es[f x := E]"] Cons.prems by simp
  also have "\<dots> = (if j \<in> f ` set (x # xs) then E else es ! j)"
    using Cons.prems by (auto simp add: nth_list_update)
  finally show ?case .
qed

lemma length_fill_range [simp]: "length (fill_range lo hi v xs) = length xs"
  by (simp add: fill_range_def)

lemma nth_fill_range:
  "j < length xs \<Longrightarrow> fill_range lo hi v xs ! j = (if lo \<le> j \<and> j < hi then v else xs ! j)"
  unfolding fill_range_def by (simp add: nth_fold_update)

lemma slot_in_range:
  fixes N c C x :: nat
  assumes N: "0 < N" and c: "c < C"
  shows "c * N + x mod N < N * C"
proof -
  have "c * N + x mod N < c * N + N" using N by simp
  also have "\<dots> = (c + 1) * N" by simp
  also have "\<dots> \<le> C * N" using c by (intro mult_le_mono1) simp
  finally show ?thesis by (simp add: mult.commute)
qed

lemma RemoveEntries_m_sequence [simp]:
  "m_sequence (RemoveEntries N b c st fin) = m_sequence b"
  by (simp add: RemoveEntries_def Let_def)

lemma RemoveEntries_length [simp]:
  "length (m_entry_sequence (RemoveEntries N b c st fin)) = length (m_entry_sequence b)"
  by (simp add: RemoveEntries_def Let_def)

lemma unat_add_mod_capacity:
  fixes x :: u16
  assumes "N dvd 65536"
  shows "unat (x + of_nat k) mod N = (unat x + k) mod N"
proof -
  have "unat (x + of_nat k) = (unat x + k) mod 65536"
    by (simp add: unat_word_ariths unat_of_nat mod_add_right_eq)
  then show ?thesis using assms by (simp add: mod_mod_cancel)
qed

lemma RemoveEntries_clears:
  fixes nxt s :: u16
  assumes ok: "buffer_ok N C b" and c: "c < C" and dv: "N dvd 65536"
    and k: "k \<le> unat (s - nxt)"
  shows "m_entry_sequence (RemoveEntries N b c (unat nxt) (unat s)) !
           (c * N + unat (nxt + of_nat k) mod N) = EMPTY_ENTRY"
proof -
  have N: "0 < N" and len: "length (m_entry_sequence b) = N * C"
    using ok by (simp_all add: buffer_ok_def)
  define start where "start = unat nxt"
  define finish where "finish = (if unat s < unat nxt then unat s + 65536 else unat s)"
  have s16: "unat s < 65536" and n16: "unat nxt < 65536"
    using unsigned_less [of s] unsigned_less [of nxt] by simp_all
  have span: "finish - start = unat (s - nxt)" and le: "start \<le> finish"
    using s16 n16 unfolding finish_def start_def
    by (auto simp add: unat_sub_if')
  have idx: "c * N + unat (nxt + of_nat k) mod N = c * N + (start + k) mod N"
    using dv by (simp add: unat_add_mod_capacity start_def)
  have inr: "c * N + (start + k) mod N < length (m_entry_sequence b)"
    using slot_in_range [OF N c] len by simp
  have RE: "m_entry_sequence (RemoveEntries N b c (unat nxt) (unat s)) =
      (if finish - start < N
       then fold (\<lambda>sequence es. es[c * N + sequence mod N := EMPTY_ENTRY])
              [start..<Suc finish] (m_entry_sequence b)
       else fill_range (c * N) ((c + 1) * N) EMPTY_ENTRY (m_entry_sequence b))"
    unfolding RemoveEntries_def Let_def start_def finish_def by simp
  show ?thesis
  proof (cases "finish - start < N")
    case True
    have mem: "start + k \<in> set [start..<Suc finish]" using k span le by auto
    have im: "c * N + (start + k) mod N \<in>
            (\<lambda>sequence. c * N + sequence mod N) ` set [start..<Suc finish]"
      using mem by (rule imageI)
    have "fold (\<lambda>sequence es. es[c * N + sequence mod N := EMPTY_ENTRY])
              [start..<Suc finish] (m_entry_sequence b) ! (c * N + (start + k) mod N) = EMPTY_ENTRY"
      using im by (simp only: nth_fold_update [OF inr] if_True)
    then show ?thesis unfolding idx RE using True by simp
  next
    case False
    have "c * N \<le> c * N + (start + k) mod N" by simp
    moreover have "c * N + (start + k) mod N < (c + 1) * N" using N by simp
    ultimately have "fill_range (c * N) ((c + 1) * N) EMPTY_ENTRY (m_entry_sequence b) !
        (c * N + (start + k) mod N) = EMPTY_ENTRY"
      by (simp only: nth_fill_range [OF inr] if_True simp_thms)
    then show ?thesis unfolding idx RE using False by simp
  qed
qed


lemma Insert_new:
  "SequenceGreaterThan (s + 1) (m_sequence b ! c) \<Longrightarrow>
   Insert N b c s =
     ((RemoveEntries N b c (unat (m_sequence b ! c)) (unat s))
        \<lparr> m_sequence := (m_sequence b)[c := s + 1],
          m_entry_sequence :=
            (m_entry_sequence (RemoveEntries N b c (unat (m_sequence b ! c)) (unat s)))
              [c * N + unat s mod N := ucast s] \<rparr>,
      Some (c * N + unat s mod N))"
  by (simp add: Insert_def Let_def)

lemma Insert_too_old:
  "\<not> SequenceGreaterThan (s + 1) (m_sequence b ! c) \<Longrightarrow>
   SequenceLessThan s (m_sequence b ! c - of_nat N) \<Longrightarrow> Insert N b c s = (b, None)"
  by (simp add: Insert_def)

lemma Insert_in_window:
  "\<not> SequenceGreaterThan (s + 1) (m_sequence b ! c) \<Longrightarrow>
   \<not> SequenceLessThan s (m_sequence b ! c - of_nat N) \<Longrightarrow>
   Insert N b c s =
     (b \<lparr> m_entry_sequence := (m_entry_sequence b)[c * N + unat s mod N := ucast s] \<rparr>,
      Some (c * N + unat s mod N))"
  by (simp add: Insert_def Let_def)

lemma Insert_length [simp]:
  "length (m_entry_sequence (fst (Insert N b c s))) = length (m_entry_sequence b)"
  by (simp add: Insert_def Let_def)

lemma Insert_success_slot:
  assumes ok: "buffer_ok N C b" and c: "c < C" and r: "snd (Insert N b c s) \<noteq> None"
  shows "snd (Insert N b c s) = Some (c * N + unat s mod N) \<and>
         m_entry_sequence (fst (Insert N b c s)) ! (c * N + unat s mod N) = ucast s"
proof -
  have N: "0 < N" and len: "length (m_entry_sequence b) = N * C"
    using ok by (simp_all add: buffer_ok_def)
  have inr: "c * N + unat s mod N < length (m_entry_sequence b)"
    using slot_in_range [OF N c] len by simp
  show ?thesis
    using r inr by (auto simp add: Insert_def Let_def split: if_splits)
qed

lemma unat_sub_capacity_mod:
  fixes s :: u16
  assumes dv: "N dvd 65536"
  shows "unat (s - of_nat N) mod N = unat s mod N"
proof -
  have "unat s mod N = unat ((s - of_nat N) + of_nat N) mod N" by simp
  also have "\<dots> = (unat (s - of_nat N) + N) mod N"
    using dv by (rule unat_add_mod_capacity)
  also have "\<dots> = unat (s - of_nat N) mod N" by simp
  finally show ?thesis by simp
qed

lemma capacity_word_nonzero:
  assumes "0 < N" and "N < 65536"
  shows "(of_nat N :: u16) \<noteq> 0"
proof
  assume "(of_nat N :: u16) = 0"
  then have "unat (of_nat N :: u16) = 0" by simp
  then have "N mod 65536 = 0" by (simp add: unat_of_nat)
  with assms show False by simp
qed

lemma unat_ucast_u16_u32: "unat (ucast (s :: u16) :: u32) = unat s"
proof -
  have "unat s < 2 ^ 16" using unsigned_less [of s] by simp
  then have "unat s < 2 ^ 32" by simp
  then show ?thesis by (simp add: unsigned_ucast_eq take_bit_nat_eq_self)
qed

lemma ucast_u16_u32_inj:
  fixes x y :: u16
  assumes "(ucast x :: u32) = ucast y"
  shows "x = y"
proof -
  have "unat (ucast x :: u32) = unat (ucast y :: u32)" using assms by simp
  then have "unat x = unat y" by (simp only: unat_ucast_u16_u32)
  then show ?thesis by (simp add: word_unat_eq_iff)
qed

lemma ucast_u16_not_empty: "(ucast (s :: u16) :: u32) \<noteq> EMPTY_ENTRY"
proof
  assume h: "(ucast s :: u32) = EMPTY_ENTRY"
  have "unat (ucast s :: u32) = unat s" by (rule unat_ucast_u16_u32)
  moreover have "unat s < 65536" using unsigned_less [of s] by simp
  ultimately show False using h by (simp add: EMPTY_ENTRY_def)
qed


lemma RemoveEntries_m_entry_data [simp]:
  "m_entry_data (RemoveEntries N b c st fin) = m_entry_data b"
  by (simp add: RemoveEntries_def Let_def)

lemma Insert_buffer_ok:
  "buffer_ok N C b \<Longrightarrow> buffer_ok N C (fst (Insert N b c s))"
  by (simp add: buffer_ok_def Insert_def Let_def)

lemma ResetAll_buffer_ok: "0 < N \<Longrightarrow> buffer_ok N C (ResetAll_buffer N C d)"
  by (simp add: buffer_ok_def ResetAll_buffer_def)

lemma ResetAll_buffer_sequence: "c < C \<Longrightarrow> m_sequence (ResetAll_buffer N C d) ! c = 0"
  by (simp add: ResetAll_buffer_def)

text \<open>
  Claim C9, as stated, fails for the capacity \<open>N = 65536\<close> (which divides 65536):
  there \<open>s - N\<close> is \<open>s\<close> again in 16-bit arithmetic, so after a successful
  \<open>Insert(c, s)\<close> the lookup \<open>Find(c, s - N)\<close> returns the slot just inserted.
\<close>

theorem Insert_full_capacity_counterexample:
  "snd (Insert 65536 (ResetAll_buffer 65536 1 ()) 0 0) = Some 0 \<and>
   Find 65536 (fst (Insert 65536 (ResetAll_buffer 65536 1 ()) 0 0)) 0 (0 - of_nat 65536) = Some 0"
proof -
  let ?b = "ResetAll_buffer 65536 1 ()"
  have ok: "buffer_ok 65536 1 ?b" by (rule ResetAll_buffer_ok) simp
  have sq: "m_sequence ?b ! 0 = 0" by (rule ResetAll_buffer_sequence) simp
  have g: "SequenceGreaterThan (0 + 1) (m_sequence ?b ! 0)"
    unfolding sq by (simp add: SequenceGreaterThan_def)
  have r: "snd (Insert 65536 ?b 0 0) \<noteq> None" unfolding Insert_new [OF g] snd_conv by simp
  have c: "(0::nat) < 1" by simp
  have slot: "snd (Insert 65536 ?b 0 0) = Some (0 * 65536 + unat (0::u16) mod 65536) \<and>
         m_entry_sequence (fst (Insert 65536 ?b 0 0)) ! (0 * 65536 + unat (0::u16) mod 65536) = ucast (0::u16)"
    by (rule Insert_success_slot [OF ok c r])
  have z: "(0::u16) - of_nat 65536 = 0" by simp
  show ?thesis using slot unfolding z by (simp add: Find_def Let_def)
qed

text \<open>
  Claim C9, amended: for a buffer whose capacity \<open>N\<close> divides 65536 and is smaller
  than 65536, every connection \<open>c\<close> and every 16-bit sequence \<open>s\<close>:
  if \<open>Greater(s+1, next_seq)\<close>, \<open>Insert\<close> empties the slot of every sequence in
  \<open>[next_seq, s]\<close> (the slot of \<open>s\<close> is then filled with \<open>s\<close>) and sets \<open>next_seq\<close>
  to \<open>s+1\<close>; else if \<open>Less(s, next_seq - N)\<close> it returns null and leaves the buffer
  as it was; otherwise it keeps \<open>next_seq\<close>.  On success it sets
  \<open>entry_seq[s mod N] = s\<close> and returns that slot, \<open>Find(c, s)\<close> returns the same slot
  and \<open>Find(c, s - N)\<close> returns null.
\<close>

theorem Insert_spec:
  fixes s :: u16
  assumes ok: "buffer_ok N C b" and c: "c < C" and dv: "N dvd 65536" and lt: "N < 65536"
  shows
    "(SequenceGreaterThan (s + 1) (m_sequence b ! c) \<longrightarrow>
        snd (Insert N b c s) = Some (c * N + unat s mod N) \<and>
        m_sequence (fst (Insert N b c s)) ! c = s + 1 \<and>
        (\<forall>k \<le> unat (s - m_sequence b ! c).
           m_entry_sequence (fst (Insert N b c s)) !
             (c * N + unat (m_sequence b ! c + of_nat k) mod N) =
           (if unat (m_sequence b ! c + of_nat k) mod N = unat s mod N
            then ucast s else EMPTY_ENTRY))) \<and>
     (\<not> SequenceGreaterThan (s + 1) (m_sequence b ! c) \<and>
      SequenceLessThan s (m_sequence b ! c - of_nat N) \<longrightarrow>
        Insert N b c s = (b, None)) \<and>
     (\<not> SequenceGreaterThan (s + 1) (m_sequence b ! c) \<and>
      \<not> SequenceLessThan s (m_sequence b ! c - of_nat N) \<longrightarrow>
        snd (Insert N b c s) = Some (c * N + unat s mod N) \<and>
        m_sequence (fst (Insert N b c s)) = m_sequence b) \<and>
     (snd (Insert N b c s) \<noteq> None \<longrightarrow>
        snd (Insert N b c s) = Some (c * N + unat s mod N) \<and>
        m_entry_sequence (fst (Insert N b c s)) ! (c * N + unat s mod N) = ucast s \<and>
        Find N (fst (Insert N b c s)) c s = Some (c * N + unat s mod N) \<and>
        Find N (fst (Insert N b c s)) c (s - of_nat N) = None)"
proof (intro conjI impI)
  have N: "0 < N" and len: "length (m_entry_sequence b) = N * C"
    and lens: "length (m_sequence b) = C"
    using ok by (simp_all add: buffer_ok_def)
  have inr: "\<And>x. c * N + x mod N < length (m_entry_sequence b)"
    using slot_in_range [OF N c] len by simp
  {
    assume g: "SequenceGreaterThan (s + 1) (m_sequence b ! c)"
    show "snd (Insert N b c s) = Some (c * N + unat s mod N)"
      by (simp add: Insert_new [OF g])
    show "m_sequence (fst (Insert N b c s)) ! c = s + 1"
      using c lens by (simp add: Insert_new [OF g])
    show "\<forall>k \<le> unat (s - m_sequence b ! c).
           m_entry_sequence (fst (Insert N b c s)) !
             (c * N + unat (m_sequence b ! c + of_nat k) mod N) =
           (if unat (m_sequence b ! c + of_nat k) mod N = unat s mod N
            then ucast s else EMPTY_ENTRY)"
    proof (intro allI impI)
      fix k assume k: "k \<le> unat (s - m_sequence b ! c)"
      let ?R = "RemoveEntries N b c (unat (m_sequence b ! c)) (unat s)"
      let ?t = "unat (m_sequence b ! c + of_nat k) mod N"
      have cl: "m_entry_sequence ?R ! (c * N + ?t) = EMPTY_ENTRY"
        by (rule RemoveEntries_clears [OF ok c dv k])
      have inR: "c * N + unat s mod N < length (m_entry_sequence ?R)"
        using inr by simp
      show "m_entry_sequence (fst (Insert N b c s)) ! (c * N + ?t) =
           (if ?t = unat s mod N then ucast s else EMPTY_ENTRY)"
        using cl inR by (simp add: Insert_new [OF g] nth_list_update)
    qed
  }
  {
    assume "\<not> SequenceGreaterThan (s + 1) (m_sequence b ! c) \<and>
      SequenceLessThan s (m_sequence b ! c - of_nat N)"
    then show "Insert N b c s = (b, None)" by (simp add: Insert_too_old)
  }
  {
    assume h: "\<not> SequenceGreaterThan (s + 1) (m_sequence b ! c) \<and>
      \<not> SequenceLessThan s (m_sequence b ! c - of_nat N)"
    then show "snd (Insert N b c s) = Some (c * N + unat s mod N)"
      by (simp add: Insert_in_window)
    from h show "m_sequence (fst (Insert N b c s)) = m_sequence b"
      by (simp add: Insert_in_window)
  }
  {
    assume r: "snd (Insert N b c s) \<noteq> None"
    note slot = Insert_success_slot [OF ok c r]
    show "snd (Insert N b c s) = Some (c * N + unat s mod N)" using slot by simp
    show e: "m_entry_sequence (fst (Insert N b c s)) ! (c * N + unat s mod N) = ucast s"
      using slot by simp
    show "Find N (fst (Insert N b c s)) c s = Some (c * N + unat s mod N)"
      using e by (simp add: Find_def Let_def)
    have ne: "s - of_nat N \<noteq> s" using capacity_word_nonzero [OF N lt] by simp
    have "(ucast s :: u32) \<noteq> ucast (s - of_nat N)"
      using ne ucast_u16_u32_inj [of s "s - of_nat N"] by auto
    then show "Find N (fst (Insert N b c s)) c (s - of_nat N) = None"
      using e by (simp add: Find_def Let_def unat_sub_capacity_mod [OF dv])
  }
qed
theorem Insert_spec_witness:
  "buffer_ok 8 1 buffer_example0 \<and> buffer_ok 8 1 buffer_example1 \<and>
   (0::nat) < 1 \<and> (8::nat) dvd 65536 \<and> (8::nat) < 65536 \<and>
   SequenceGreaterThan (100 + 1) (m_sequence buffer_example0 ! 0) \<and>
   (3::nat) \<le> unat (100 - m_sequence buffer_example0 ! 0) \<and>
   snd (Insert 8 buffer_example0 0 100) = Some 4 \<and>
   m_sequence (fst (Insert 8 buffer_example0 0 100)) ! 0 = 101 \<and>
   m_entry_sequence (fst (Insert 8 buffer_example0 0 100)) ! 3 = EMPTY_ENTRY \<and>
   Find 8 (fst (Insert 8 buffer_example0 0 100)) 0 100 = Some 4 \<and>
   Find 8 (fst (Insert 8 buffer_example0 0 100)) 0 92 = None \<and>
   \<not> SequenceGreaterThan (50 + 1) (m_sequence buffer_example1 ! 0) \<and>
   SequenceLessThan 50 (m_sequence buffer_example1 ! 0 - of_nat 8) \<and>
   Insert 8 buffer_example1 0 50 = (buffer_example1, None) \<and>
   \<not> SequenceGreaterThan (98 + 1) (m_sequence buffer_example1 ! 0) \<and>
   \<not> SequenceLessThan 98 (m_sequence buffer_example1 ! 0 - of_nat 8) \<and>
   snd (Insert 8 buffer_example1 0 98) = Some 2 \<and>
   Find 8 (fst (Insert 8 buffer_example1 0 98)) 0 98 = Some 2 \<and>
   Find 8 (fst (Insert 8 buffer_example1 0 98)) 0 90 = None"
proof -
  have ok0: "buffer_ok 8 1 buffer_example0"
    unfolding buffer_example0_def by (rule ResetAll_buffer_ok) simp
  have sq0: "m_sequence buffer_example0 ! 0 = 0"
    unfolding buffer_example0_def by (rule ResetAll_buffer_sequence) simp
  have sq1: "m_sequence buffer_example1 ! 0 = 101"
    by (simp add: buffer_example1_def buffer_example0_def Insert_def ResetAll_buffer_def
          SequenceGreaterThan_def Let_def)
  have ok1: "buffer_ok 8 1 buffer_example1"
    unfolding buffer_example1_def using ok0 by (rule Insert_buffer_ok)
  have c: "(0::nat) < 1" and dv: "(8::nat) dvd 65536" and lt: "(8::nat) < 65536" by simp_all
  have g0: "SequenceGreaterThan (100 + 1) (m_sequence buffer_example0 ! 0)"
    unfolding sq0 by (simp add: SequenceGreaterThan_def)
  have k0: "(3::nat) \<le> unat (100 - m_sequence buffer_example0 ! 0)"
    unfolding sq0 by simp
  have g1: "\<not> SequenceGreaterThan (50 + 1) (m_sequence buffer_example1 ! 0)"
    unfolding sq1 by (simp add: SequenceGreaterThan_def)
  have l1: "SequenceLessThan 50 (m_sequence buffer_example1 ! 0 - of_nat 8)"
    unfolding sq1 by (simp add: SequenceLessThan_def SequenceGreaterThan_def)
  have g2: "\<not> SequenceGreaterThan (98 + 1) (m_sequence buffer_example1 ! 0)"
    unfolding sq1 by (simp add: SequenceGreaterThan_def)
  have l2: "\<not> SequenceLessThan 98 (m_sequence buffer_example1 ! 0 - of_nat 8)"
    unfolding sq1 by (simp add: SequenceLessThan_def SequenceGreaterThan_def)
  note A = Insert_spec [OF ok0 c dv lt, of 100]
  note B = Insert_spec [OF ok1 c dv lt, of 50]
  note D = Insert_spec [OF ok1 c dv lt, of 98]
  have A1': "snd (Insert 8 buffer_example0 0 100) = Some (0 * 8 + unat (100::u16) mod 8)"
    using A g0 by blast
  then have A1: "snd (Insert 8 buffer_example0 0 100) = Some 4" by simp
  have A2': "m_sequence (fst (Insert 8 buffer_example0 0 100)) ! 0 = 100 + 1"
    using A g0 by blast
  then have A2: "m_sequence (fst (Insert 8 buffer_example0 0 100)) ! 0 = 101" by simp
  have A3: "m_entry_sequence (fst (Insert 8 buffer_example0 0 100)) ! 3 = EMPTY_ENTRY"
  proof -
    from A g0 have "\<forall>k \<le> unat (100 - m_sequence buffer_example0 ! 0).
           m_entry_sequence (fst (Insert 8 buffer_example0 0 100)) !
             (0 * 8 + unat (m_sequence buffer_example0 ! 0 + of_nat k) mod 8) =
           (if unat (m_sequence buffer_example0 ! 0 + of_nat k) mod 8 = unat (100::u16) mod 8
            then ucast (100::u16) else EMPTY_ENTRY)" by blast
    from this [rule_format, OF k0] show ?thesis unfolding sq0 by simp
  qed
  have r0: "snd (Insert 8 buffer_example0 0 100) \<noteq> None" using A1 by simp
  have A4': "Find 8 (fst (Insert 8 buffer_example0 0 100)) 0 100 = Some (0 * 8 + unat (100::u16) mod 8) \<and>
            Find 8 (fst (Insert 8 buffer_example0 0 100)) 0 (100 - of_nat 8) = None"
    using A r0 by blast
  then have A4: "Find 8 (fst (Insert 8 buffer_example0 0 100)) 0 100 = Some 4 \<and>
            Find 8 (fst (Insert 8 buffer_example0 0 100)) 0 92 = None"
    by simp
  have B1: "Insert 8 buffer_example1 0 50 = (buffer_example1, None)"
    using B g1 l1 by blast
  have D1': "snd (Insert 8 buffer_example1 0 98) = Some (0 * 8 + unat (98::u16) mod 8)"
    using D g2 l2 by blast
  then have D1: "snd (Insert 8 buffer_example1 0 98) = Some 2" by simp
  have r1: "snd (Insert 8 buffer_example1 0 98) \<noteq> None" using D1 by simp
  have D2': "Find 8 (fst (Insert 8 buffer_example1 0 98)) 0 98 = Some (0 * 8 + unat (98::u16) mod 8) \<and>
            Find 8 (fst (Insert 8 buffer_example1 0 98)) 0 (98 - of_nat 8) = None"
    using D r1 by blast
  then have D2: "Find 8 (fst (Insert 8 buffer_example1 0 98)) 0 98 = Some 2 \<and>
            Find 8 (fst (Insert 8 buffer_example1 0 98)) 0 90 = None"
    by simp
  show ?thesis
    using ok0 ok1 c dv lt g0 k0 A1 A2 A3 A4 g1 l1 B1 g2 l2 D1 D2 by blast
qed

section \<open>Acknowledgement bitmap\<close>

lemma ack_fold_bits:
  "k \<le> 32 \<Longrightarrow>
     snd (fold (ack_step N b c ack) [0..<k] (0, 1)) = push_bit k 1 \<and>
     (\<forall>i. bit (fst (fold (ack_step N b c ack) [0..<k] (0, 1))) i =
          (i < k \<and> Exists N b c (ack - of_nat i)))"
proof (induction k)
  case 0
  show ?case by simp
next
  case (Suc k)
  then have k: "k < 32" and
    m: "snd (fold (ack_step N b c ack) [0..<k] (0, 1)) = push_bit k 1" and
    bits: "\<And>i. bit (fst (fold (ack_step N b c ack) [0..<k] (0, 1))) i =
          (i < k \<and> Exists N b c (ack - of_nat i))"
    by simp_all
  obtain A M where AM: "fold (ack_step N b c ack) [0..<k] (0, 1) = (A, M)"
    by (cases "fold (ack_step N b c ack) [0..<k] (0, 1)")
  have M: "M = push_bit k 1" using m AM by simp
  have A: "\<And>i. bit A i = (i < k \<and> Exists N b c (ack - of_nat i))" using bits AM by simp
  have step: "fold (ack_step N b c ack) [0..<Suc k] (0, 1) =
        ((if Exists N b c (ack - of_nat k) then A OR push_bit k 1 else A), push_bit (Suc k) 1)"
    by (simp add: AM M ack_step_def Let_def mult.commute)
  have bk: "\<And>i. bit (push_bit k (1::u32)) i = (i = k)"
    using k by (auto simp add: bit_exp_iff possible_bit_word)
  show ?case
    unfolding step using A bk by (auto simp add: bit_or_iff less_Suc_eq)
qed


lemma received_example_exists:
  "m_sequence received_example = [101] \<and>
   Exists 256 received_example 0 100 \<and> \<not> Exists 256 received_example 0 99 \<and>
   Exists 256 received_example 0 98 \<and> Exists 256 received_example 0 97 \<and>
   \<not> Exists 256 received_example 0 96 \<and> Exists 256 received_example 0 95"
  by code_simp

lemma received_example_ack:
  "GenerateAcknowledgementBits 256 received_example 0 = (100, 45)"
  by code_simp

text \<open>
  Claim C5, as stated, fails in its worked example: sequence 95 is \<open>ack - 5\<close>, so bit 5
  is set as well and the bitmap is 45 (binary 101101), not 13 (binary 1101).
\<close>

theorem GenerateAcknowledgementBits_example_counterexample:
  "m_sequence received_example = [101] \<and>
   Exists 256 received_example 0 95 \<and>
   snd (GenerateAcknowledgementBits 256 received_example 0) \<noteq> 13"
  using received_example_exists received_example_ack by simp

text \<open>
  Claim C5, amended: on send, \<open>ack = received_next_seq - 1\<close>, and for \<open>i\<close> in
  \<open>0..31\<close> bit \<open>i\<close> of \<open>ack_bits\<close> is set iff sequence \<open>ack - i\<close> exists in the
  received-packet buffer; with received sequences 100, 98, 97, 95 and
  \<open>received_next_seq = 101\<close> this yields \<open>ack = 100\<close> and \<open>ack_bits = 45\<close>
  (binary 101101: bits 0, 2, 3 and 5 set, bits 1 and 4 for 99 and 96 clear).
\<close>

theorem GenerateAcknowledgementBits_spec:
  "fst (GenerateAcknowledgementBits N b c) = m_sequence b ! c - 1 \<and>
   (\<forall>i<32. bit (snd (GenerateAcknowledgementBits N b c)) i =
             Exists N b c (m_sequence b ! c - 1 - of_nat i)) \<and>
   m_sequence received_example ! 0 = 101 \<and>
   GenerateAcknowledgementBits 256 received_example 0 = (100, 45)"
proof -
  have f: "fst (GenerateAcknowledgementBits N b c) = m_sequence b ! c - 1"
    by (simp add: GenerateAcknowledgementBits_def Let_def)
  have g: "\<forall>i<32. bit (snd (GenerateAcknowledgementBits N b c)) i =
             Exists N b c (m_sequence b ! c - 1 - of_nat i)"
    using ack_fold_bits [of 32 N b c "m_sequence b ! c - 1"]
    by (simp add: GenerateAcknowledgementBits_def Let_def)
  have e1: "m_sequence received_example ! 0 = 101"
    using received_example_exists by simp
  have e2: "GenerateAcknowledgementBits 256 received_example 0 = (100, 45)"
    by (rule received_example_ack)
  show ?thesis using f g e1 e2 by blast
qed

theorem GenerateAcknowledgementBits_spec_witness:
  "(5::nat) < 32 \<and>
   Exists 256 received_example 0 (m_sequence received_example ! 0 - 1 - of_nat 5) \<and>
   bit (snd (GenerateAcknowledgementBits 256 received_example 0)) 5"
proof -
  have e: "Exists 256 received_example 0 (m_sequence received_example ! 0 - 1 - of_nat 5)"
    using received_example_exists by simp
  have "\<forall>i<32. bit (snd (GenerateAcknowledgementBits 256 received_example 0)) i =
             Exists 256 received_example 0 (m_sequence received_example ! 0 - 1 - of_nat i)"
    using GenerateAcknowledgementBits_spec [of 256 received_example 0] by blast
  then have "bit (snd (GenerateAcknowledgementBits 256 received_example 0)) 5 =
             Exists 256 received_example 0 (m_sequence received_example ! 0 - 1 - of_nat 5)"
    by simp
  with e show ?thesis by simp
qed

section \<open>Packet header\<close>

lemma byte_masks:
  "(0x000000FF :: u32) = mask 8" "(0x0000FF00 :: u32) = push_bit 8 (mask 8)"
  "(0x00FF0000 :: u32) = push_bit 16 (mask 8)" "(0xFF000000 :: u32) = push_bit 24 (mask 8)"
  by (simp_all add: mask_eq_exp_minus_1)

lemma keep_masks:
  "(0xFFFFFF00 :: u32) = NOT (mask 8)" "(0xFFFF00FF :: u32) = NOT (push_bit 8 (mask 8))"
  "(0xFF00FFFF :: u32) = NOT (push_bit 16 (mask 8))" "(0x00FFFFFF :: u32) = NOT (push_bit 24 (mask 8))"
  "(0xFFFFFFFF :: u32) = - 1"
  by (simp_all add: mask_eq_exp_minus_1)

lemma ack_byte_full: "(ack_byte ab i = 0xFF) = (\<forall>n<8. bit ab (8 * i + n))"
proof -
  have "(0xFF :: u8) = mask 8" by (simp add: mask_eq_exp_minus_1)
  then show ?thesis
    unfolding ack_byte_def
    by (auto simp add: bit_eq_iff bit_simps)
qed

lemma bit_byte_mask:
  "bit (push_bit (8 * i) (mask 8) :: u32) n = (n < 32 \<and> 8 * i \<le> n \<and> n < 8 * i + 8)"
  by (auto simp add: bit_simps)

lemma flag_iff:
  "i < 4 \<Longrightarrow>
   ((ab :: u32) AND push_bit (8 * i) (mask 8) = push_bit (8 * i) (mask 8)) = (ack_byte ab i = 0xFF)"
proof -
  assume i: "i < 4"
  let ?M = "push_bit (8 * i) (mask 8) :: u32"
  show ?thesis unfolding ack_byte_full
  proof
    assume L: "ab AND ?M = ?M"
    show "\<forall>n<8. bit ab (8 * i + n)"
    proof (intro allI impI)
      fix n :: nat assume n: "n < 8"
      have "bit ?M (8 * i + n)" unfolding bit_byte_mask using i n by simp
      then have "bit (ab AND ?M) (8 * i + n)" using L by simp
      then show "bit ab (8 * i + n)" by (simp add: bit_and_iff)
    qed
  next
    assume R: "\<forall>n<8. bit ab (8 * i + n)"
    show "ab AND ?M = ?M"
    proof (rule bit_eqI)
      fix n
      have "bit ?M n \<Longrightarrow> bit ab n"
      proof -
        assume "bit ?M n"
        then have b: "8 * i \<le> n" "n < 8 * i + 8" unfolding bit_byte_mask by simp_all
        then have "n - 8 * i < 8" by simp
        with R have "bit ab (8 * i + (n - 8 * i))" by blast
        with b show "bit ab n" by simp
      qed
      then show "bit (ab AND ?M) n = bit ?M n" by (auto simp add: bit_and_iff)
    qed
  qed
qed

lemma written_byte:
  "(ucast (drop_bit (8 * i) ((ab :: u32) AND push_bit (8 * i) (mask 8))) :: u8) = ack_byte ab i"
  unfolding ack_byte_def
  by (rule bit_eqI) (auto simp add: bit_simps dest: bit_imp_le_length)

lemma prefix_bit_test:
  "((p :: u8) AND push_bit i 1 \<noteq> 0) = bit p i"
  by (simp add: bit_iff_and_push_bit_not_eq_0)


lemma sequence_difference_eq:
  fixes s a :: u16
  shows "(let d0 = uint s - uint a in if d0 < 0 then d0 + 65536 else d0) = uint (s - a)"
  by (simp add: uint_sub_if' Let_def)

lemma difference_small_iff:
  fixes x :: u16
  shows "(uint x \<le> 255) = (unat x \<le> 255)"
proof -
  have "uint x = int (unat x)" by simp
  then show ?thesis by linarith
qed

lemma difference_byte:
  fixes x :: u16
  shows "(of_int (uint x) :: u8) = ucast x"
  by (rule bit_eqI) (simp add: bit_simps)

lemma read_u16_written:
  fixes v :: u16
  shows "(ucast (ucast v :: u8) :: u16) OR push_bit 8 (ucast (ucast (drop_bit 8 v) :: u8)) = v"
  by (rule bit_eqI) (auto simp add: bit_simps dest: bit_imp_le_length)

lemma small_difference_roundtrip:
  fixes x :: u16
  assumes "unat x \<le> 255"
  shows "(ucast (ucast x :: u8) :: u16) = x"
proof -
  have "(ucast (ucast x :: u8) :: u16) = take_bit 8 x"
    by (rule bit_eqI) (auto simp add: bit_simps)
  moreover have "unat (take_bit 8 x) = unat x"
    using assms by (simp add: unsigned_take_bit_eq take_bit_nat_eq_self)
  ultimately show ?thesis by (simp add: word_unat_eq_iff)
qed


lemma flag_iff':
  "i < 4 \<Longrightarrow> M = push_bit (8 * i) (mask 8) \<Longrightarrow>
   ((ab :: u32) AND M \<noteq> M) = (ack_byte ab i \<noteq> 0xFF)"
  using flag_iff [of i ab] by blast

lemma written_byte':
  "M = push_bit (8 * i) (mask 8) \<Longrightarrow> k = 8 * i \<Longrightarrow>
   (ucast (drop_bit k ((ab :: u32) AND M)) :: u8) = ack_byte ab i"
  using written_byte [of i ab] by blast

lemma flag0: "((ab :: u32) AND 0x000000FF \<noteq> 0x000000FF) = (ack_byte ab 0 \<noteq> 0xFF)"
  by (rule flag_iff') (simp_all add: mask_eq_exp_minus_1)
lemma flag1: "((ab :: u32) AND 0x0000FF00 \<noteq> 0x0000FF00) = (ack_byte ab 1 \<noteq> 0xFF)"
  by (rule flag_iff') (simp_all add: mask_eq_exp_minus_1)
lemma flag2: "((ab :: u32) AND 0x00FF0000 \<noteq> 0x00FF0000) = (ack_byte ab 2 \<noteq> 0xFF)"
  by (rule flag_iff') (simp_all add: mask_eq_exp_minus_1)
lemma flag3: "((ab :: u32) AND 0xFF000000 \<noteq> 0xFF000000) = (ack_byte ab 3 \<noteq> 0xFF)"
  by (rule flag_iff') (simp_all add: mask_eq_exp_minus_1)

lemma wbyte0: "(ucast ((ab :: u32) AND 0x000000FF) :: u8) = ack_byte ab 0"
proof -
  have "(ucast (drop_bit 0 (ab AND 0x000000FF)) :: u8) = ack_byte ab 0"
    by (rule written_byte') (simp_all add: mask_eq_exp_minus_1)
  then show ?thesis by (simp only: drop_bit_0 id_apply)
qed
lemma wbyte1: "(ucast (drop_bit 8 ((ab :: u32) AND 0x0000FF00)) :: u8) = ack_byte ab 1"
  by (rule written_byte') (simp_all add: mask_eq_exp_minus_1)
lemma wbyte2: "(ucast (drop_bit 16 ((ab :: u32) AND 0x00FF0000)) :: u8) = ack_byte ab 2"
  by (rule written_byte') (simp_all add: mask_eq_exp_minus_1)
lemma wbyte3: "(ucast (drop_bit 24 ((ab :: u32) AND 0xFF000000)) :: u8) = ack_byte ab 3"
  by (rule written_byte') (simp_all add: mask_eq_exp_minus_1)


lemma WritePacketHeader_layout:
  "WritePacketHeader s a ab =
     [hd (WritePacketHeader s a ab), ucast s, ucast (drop_bit 8 s)] @
     (if unat (s - a) \<le> 255 then [ucast (s - a)] else [ucast a, ucast (drop_bit 8 a)]) @
     ack_tail ab 0 @ ack_tail ab 1 @ ack_tail ab 2 @ ack_tail ab 3"
proof -
  have sd: "(if uint s - uint a < 0 then uint s - uint a + 65536 else uint s - uint a) = uint (s - a)"
    using sequence_difference_eq [of s a] by (simp add: Let_def)
  show ?thesis
    unfolding WritePacketHeader_def Let_def sd difference_small_iff difference_byte
      flag0 flag1 flag2 flag3 wbyte0 wbyte1 wbyte2 wbyte3
      WriteUint8_def WriteUint16_def ack_tail_def
    by simp
qed


lemma header_prefix_bits:
  "bit (header_prefix f0 f1 f2 f3 d) k =
     ((k = 5 \<and> d) \<or> (k = 1 \<and> f0) \<or> (k = 2 \<and> f1) \<or> (k = 3 \<and> f2) \<or> (k = 4 \<and> f3))"
proof (cases "k < 8")
  case True
  then consider "k = 0" | "k = 1" | "k = 2" | "k = 3" | "k = 4" | "k = 5" | "k = 6" | "k = 7"
    by linarith
  then show ?thesis
    by cases (simp_all add: header_prefix_def Let_def bit_or_iff)
next
  case False
  then have "\<not> bit (header_prefix f0 f1 f2 f3 d) k"
    using bit_imp_le_length [of "header_prefix f0 f1 f2 f3 d" k] by auto
  with False show ?thesis by auto
qed

lemma WritePacketHeader_hd:
  "hd (WritePacketHeader s a ab) =
     header_prefix (ack_byte ab 0 \<noteq> 0xFF) (ack_byte ab 1 \<noteq> 0xFF) (ack_byte ab 2 \<noteq> 0xFF)
       (ack_byte ab 3 \<noteq> 0xFF) (unat (s - a) \<le> 255)"
proof -
  have sd: "(if uint s - uint a < 0 then uint s - uint a + 65536 else uint s - uint a) = uint (s - a)"
    using sequence_difference_eq [of s a] by (simp add: Let_def)
  show ?thesis
    unfolding WritePacketHeader_def header_prefix_def Let_def sd difference_small_iff difference_byte
      flag0 flag1 flag2 flag3 wbyte0 wbyte1 wbyte2 wbyte3
      WriteUint8_def WriteUint16_def
    by simp
qed

lemma WritePacketHeader_prefix:
  "bit (hd (WritePacketHeader s a ab)) k =
     ((k = 5 \<and> unat (s - a) \<le> 255) \<or> (1 \<le> k \<and> k \<le> 4 \<and> ack_byte ab (k - 1) \<noteq> 0xFF))"
proof -
  have "(1 \<le> k \<and> k \<le> 4 \<and> ack_byte ab (k - 1) \<noteq> 0xFF) =
        ((k = 1 \<and> ack_byte ab 0 \<noteq> 0xFF) \<or> (k = 2 \<and> ack_byte ab 1 \<noteq> 0xFF) \<or>
         (k = 3 \<and> ack_byte ab 2 \<noteq> 0xFF) \<or> (k = 4 \<and> ack_byte ab 3 \<noteq> 0xFF))"
  proof (cases "1 \<le> k \<and> k \<le> 4")
    case True
    then consider "k = 1" | "k = 2" | "k = 3" | "k = 4" by linarith
    then show ?thesis by cases simp_all
  next
    case False
    then show ?thesis by auto
  qed
  then show ?thesis unfolding WritePacketHeader_hd header_prefix_bits by blast
qed


lemma prefix_bit_test_exp:
  "((p :: u8) AND 2 ^ i \<noteq> 0) = bit p i"
  using prefix_bit_test [of p i] by simp

lemma read_ack_byte_step:
  assumes "d = pre @ (if bit pb i then [v] else []) @ rest"
  shows "read_ack_byte pb d i keep (acc, length pre) =
           ((if bit pb i then (acc AND keep) OR push_bit (8 * (i - 1)) (ucast v) else acc),
            length (pre @ (if bit pb i then [v] else [])))"
  using assms
  by (simp add: read_ack_byte_def prefix_bit_test_exp ReadUint8_def Let_def nth_append)

lemma ack_byte_bits:
  "bit (push_bit (8 * i) (ucast (ack_byte ab i) :: u32)) n =
     (n < 32 \<and> 8 * i \<le> n \<and> n < 8 * i + 8 \<and> bit ab n)"
  unfolding ack_byte_def
  by (auto simp add: bit_simps dest: bit_imp_le_length)

lemma reassemble_step:
  assumes inv: "\<forall>n. bit (acc :: u32) n = (n < 32 \<and> (n < 8 * i \<longrightarrow> bit ab n))"
  shows "\<forall>n. bit (if ack_byte ab i \<noteq> 0xFF
                  then (acc AND NOT (push_bit (8 * i) (mask 8))) OR
                       push_bit (8 * i) (ucast (ack_byte ab i))
                  else acc) n =
             (n < 32 \<and> (n < 8 * (i + 1) \<longrightarrow> bit ab n))"
proof (cases "ack_byte ab i \<noteq> 0xFF")
  case True
  show ?thesis
  proof
    fix n
    show "bit (if ack_byte ab i \<noteq> 0xFF
                  then (acc AND NOT (push_bit (8 * i) (mask 8))) OR
                       push_bit (8 * i) (ucast (ack_byte ab i))
                  else acc) n =
             (n < 32 \<and> (n < 8 * (i + 1) \<longrightarrow> bit ab n))"
      using True inv [rule_format, of n]
      by (auto simp add: bit_or_iff bit_and_iff bit_not_iff ack_byte_bits bit_byte_mask
            dest: bit_imp_le_length)
  qed
next
  case False
  then have full: "\<forall>m<8. bit ab (8 * i + m)" by (simp add: ack_byte_full)
  show ?thesis
  proof
    fix n
    have "8 * i \<le> n \<Longrightarrow> n < 8 * (i + 1) \<Longrightarrow> bit ab n"
    proof -
      assume a: "8 * i \<le> n" "n < 8 * (i + 1)"
      then have "n - 8 * i < 8" by simp
      with full have "bit ab (8 * i + (n - 8 * i))" by blast
      with a show "bit ab n" by simp
    qed
    then show "bit (if ack_byte ab i \<noteq> 0xFF
                  then (acc AND NOT (push_bit (8 * i) (mask 8))) OR
                       push_bit (8 * i) (ucast (ack_byte ab i))
                  else acc) n =
             (n < 32 \<and> (n < 8 * (i + 1) \<longrightarrow> bit ab n))"
      using False inv [rule_format, of n] by (cases "n < 8 * i") auto
  qed
qed


lemma upt_1_5: "[1..<5] = [1, 2, 3, 4::nat]"
  by (simp add: upt_rec)

lemma ReadPacketHeader_written:
  "ReadPacketHeader (WritePacketHeader s a ab @ payload)
       (int (length (WritePacketHeader s a ab) + length payload)) =
     Some (s, a, ab, length (WritePacketHeader s a ab))"
proof -
  define h where "h = WritePacketHeader s a ab"
  define pb where "pb = hd h"
  define ackp where "ackp = (if unat (s - a) \<le> 255 then [ucast (s - a) :: u8]
                              else [ucast a, ucast (drop_bit 8 a)])"
  define base where "base = [pb, ucast s, ucast (drop_bit 8 s)] @ ackp"
  define D where "D = h @ payload"
  define pbytes where "pbytes = int (length h + length payload)"
  have layout: "h = base @ ack_tail ab 0 @ ack_tail ab 1 @ ack_tail ab 2 @ ack_tail ab 3"
    unfolding h_def base_def pb_def ackp_def using WritePacketHeader_layout [of s a ab] by simp
  have pbits: "\<And>k. bit pb k =
     ((k = 5 \<and> unat (s - a) \<le> 255) \<or> (1 \<le> k \<and> k \<le> 4 \<and> ack_byte ab (k - 1) \<noteq> 0xFF))"
    unfolding pb_def h_def by (rule WritePacketHeader_prefix)
  have tail: "\<And>i. i < 4 \<Longrightarrow> ack_tail ab i = (if bit pb (i + 1) then [ack_byte ab i] else [])"
    unfolding ack_tail_def pbits by simp
  have lb: "length base = (if unat (s - a) \<le> 255 then 4 else 5)"
    unfolding base_def ackp_def by simp
  have Dl: "D = base @ ack_tail ab 0 @ ack_tail ab 1 @ ack_tail ab 2 @ ack_tail ab 3 @ payload"
    unfolding D_def layout by simp
  have D0: "D ! 0 = pb" "D ! 1 = ucast s" "D ! 2 = ucast (drop_bit 8 s)"
    unfolding Dl base_def by simp_all
  have D3: "unat (s - a) \<le> 255 \<Longrightarrow> D ! 3 = ucast (s - a)"
    unfolding Dl base_def ackp_def by simp
  have D34: "\<not> unat (s - a) \<le> 255 \<Longrightarrow> D ! 3 = ucast a \<and> D ! 4 = ucast (drop_bit 8 a)"
    unfolding Dl base_def ackp_def by simp
  have r0: "ReadUint8 D 0 = (pb, 1)" by (simp add: ReadUint8_def D0)
  have b0: "pb AND 1 = 0"
    using prefix_bit_test [of pb 0] pbits [of 0] by simp
  have ar: "(1::nat) + 1 = 2" "(1::nat) + 2 = 3" "(3::nat) + 1 = 4" "(3::nat) + 2 = 5"
    by simp_all
  have r1: "ReadUint16 D 1 = (s, 3)"
    by (simp only: ReadUint16_def ar D0 read_u16_written)
  have r3: "ReadUint16 D 3 = (ucast (D ! 3) OR push_bit 8 (ucast (D ! 4)), 5)"
    by (simp only: ReadUint16_def ar)
  have r3': "ReadUint8 D 3 = (D ! 3, 4)"
    by (simp only: ReadUint8_def ar)
  have b5: "(pb AND push_bit 5 1 \<noteq> 0) = (unat (s - a) \<le> 255)"
    unfolding prefix_bit_test pbits by simp
  have len: "length h = length base + length (ack_tail ab 0 @ ack_tail ab 1 @ ack_tail ab 2 @ ack_tail ab 3)"
    unfolding layout by simp
  have ackpart:
    "(if pb AND push_bit 5 1 \<noteq> 0
      then Some (s - ucast (fst (ReadUint8 D 3)), snd (ReadUint8 D 3))
      else if pbytes < 3 + 2 then None
      else Some (ReadUint16 D 3)) = Some (a, length base)"
  proof (cases "unat (s - a) \<le> 255")
    case True
    have "s - ucast (ucast (s - a) :: u8) = a"
      using small_difference_roundtrip [OF True] by simp
    then show ?thesis
      unfolding b5 r3' D3 [OF True] using True by (simp add: lb)
  next
    case False
    have "\<not> pbytes < 3 + 2" unfolding pbytes_def len lb using False by simp
    then show ?thesis
      unfolding b5 r3 using False D34 [OF False] by (simp add: lb read_u16_written)
  qed
  have expected:
    "length (filter (\<lambda>i. pb AND push_bit i 1 \<noteq> 0) [1..<5]) =
     length (ack_tail ab 0 @ ack_tail ab 1 @ ack_tail ab 2 @ ack_tail ab 3)"
    unfolding prefix_bit_test upt_1_5 ack_tail_def pbits by simp
  have enough: "\<not> pbytes < int (length base) +
       int (length (filter (\<lambda>i. pb AND push_bit i 1 \<noteq> 0) [1..<5]))"
    unfolding expected pbytes_def len by simp
  define step where "step = (\<lambda>i (acc :: u32).
      if ack_byte ab i \<noteq> 0xFF
      then (acc AND NOT (push_bit (8 * i) (mask 8))) OR push_bit (8 * i) (ucast (ack_byte ab i))
      else acc)"
  have read_tail: "\<And>i j pre rest acc keep. i < 4 \<Longrightarrow> j = i + 1 \<Longrightarrow>
      D = pre @ ack_tail ab i @ rest \<Longrightarrow> keep = NOT (push_bit (8 * i) (mask 8)) \<Longrightarrow>
      read_ack_byte pb D j keep (acc, length pre) = (step i acc, length (pre @ ack_tail ab i))"
  proof -
    fix i j :: nat and pre rest :: "u8 list" and acc keep :: u32
    assume i: "i < 4" and j: "j = i + 1" and d: "D = pre @ ack_tail ab i @ rest"
      and keep: "keep = NOT (push_bit (8 * i) (mask 8))"
    have d': "D = pre @ (if bit pb j then [ack_byte ab i] else []) @ rest"
      using d tail [OF i] j by simp
    have f: "bit pb j = (ack_byte ab i \<noteq> 0xFF)" unfolding pbits j using i by simp
    have "read_ack_byte pb D j keep (acc, length pre) =
           ((if bit pb j then (acc AND keep) OR push_bit (8 * (j - 1)) (ucast (ack_byte ab i)) else acc),
            length (pre @ (if bit pb j then [ack_byte ab i] else [])))"
      by (rule read_ack_byte_step [OF d'])
    then show "read_ack_byte pb D j keep (acc, length pre) = (step i acc, length (pre @ ack_tail ab i))"
      unfolding f step_def ack_tail_def keep by (simp add: j)
  qed
  have s1: "read_ack_byte pb D 1 0xFFFFFF00 (0xFFFFFFFF, length base) =
      (step 0 (- 1), length (base @ ack_tail ab 0))"
  proof -
    have "read_ack_byte pb D 1 0xFFFFFF00 (- 1, length base) =
      (step 0 (- 1), length (base @ ack_tail ab 0))"
      by (rule read_tail [where rest = "ack_tail ab 1 @ ack_tail ab 2 @ ack_tail ab 3 @ payload"])
         (simp_all add: Dl mask_eq_exp_minus_1)
    moreover have "(0xFFFFFFFF :: u32) = - 1" by simp
    ultimately show ?thesis by (simp only:)
  qed
  have s2: "read_ack_byte pb D 2 0xFFFF00FF (step 0 (- 1), length (base @ ack_tail ab 0)) =
      (step 1 (step 0 (- 1)), length ((base @ ack_tail ab 0) @ ack_tail ab 1))"
    by (rule read_tail [where rest = "ack_tail ab 2 @ ack_tail ab 3 @ payload"])
       (simp_all add: Dl mask_eq_exp_minus_1)
  have s3: "read_ack_byte pb D 3 0xFF00FFFF
        (step 1 (step 0 (- 1)), length ((base @ ack_tail ab 0) @ ack_tail ab 1)) =
      (step 2 (step 1 (step 0 (- 1))),
       length (((base @ ack_tail ab 0) @ ack_tail ab 1) @ ack_tail ab 2))"
    by (rule read_tail [where rest = "ack_tail ab 3 @ payload"])
       (simp_all add: Dl mask_eq_exp_minus_1)
  have s4: "read_ack_byte pb D 4 0x00FFFFFF
        (step 2 (step 1 (step 0 (- 1))),
         length (((base @ ack_tail ab 0) @ ack_tail ab 1) @ ack_tail ab 2)) =
      (step 3 (step 2 (step 1 (step 0 (- 1)))),
       length ((((base @ ack_tail ab 0) @ ack_tail ab 1) @ ack_tail ab 2) @ ack_tail ab 3))"
    by (rule read_tail [where rest = "payload"])
       (simp_all add: Dl mask_eq_exp_minus_1)
  have step_app: "\<And>i acc. step i acc =
      (if ack_byte ab i \<noteq> 0xFF
       then (acc AND NOT (push_bit (8 * i) (mask 8))) OR push_bit (8 * i) (ucast (ack_byte ab i))
       else acc)"
    unfolding step_def by (rule refl)
  have i0: "\<forall>n. bit (- 1 :: u32) n = (n < 32 \<and> (n < 8 * 0 \<longrightarrow> bit ab n))"
    by (simp add: bit_simps)
  have i1: "\<forall>n. bit (step 0 (- 1)) n = (n < 32 \<and> (n < 8 * (0 + 1) \<longrightarrow> bit ab n))"
    unfolding step_app [of 0 "- 1"] by (rule reassemble_step [OF i0])
  have i2: "\<forall>n. bit (step 1 (step 0 (- 1))) n = (n < 32 \<and> (n < 8 * (1 + 1) \<longrightarrow> bit ab n))"
    unfolding step_app [of 1 "step 0 (- 1)"] by (rule reassemble_step) (use i1 in simp)
  have i3: "\<forall>n. bit (step 2 (step 1 (step 0 (- 1)))) n =
        (n < 32 \<and> (n < 8 * (2 + 1) \<longrightarrow> bit ab n))"
    unfolding step_app [of 2 "step 1 (step 0 (- 1))"] by (rule reassemble_step) (use i2 in simp)
  have i4: "\<forall>n. bit (step 3 (step 2 (step 1 (step 0 (- 1))))) n =
        (n < 32 \<and> (n < 8 * (3 + 1) \<longrightarrow> bit ab n))"
    unfolding step_app [of 3 "step 2 (step 1 (step 0 (- 1)))"] by (rule reassemble_step) (use i3 in simp)
  have acc: "step 3 (step 2 (step 1 (step 0 (- 1)))) = ab"
    by (rule bit_eqI) (use i4 in \<open>auto dest: bit_imp_le_length\<close>)
  have plen: "length ((((base @ ack_tail ab 0) @ ack_tail ab 1) @ ack_tail ab 2) @ ack_tail ab 3)
      = length h"
    unfolding layout by simp
  have notmin: "(pbytes < MIN_RUDP_HEADER_BYTES) = False"
    unfolding pbytes_def len lb MIN_RUDP_HEADER_BYTES_def by simp
  have r1': "ReadUint16 D (snd (pb, 1::nat)) = (s, 3)" using r1 by simp
  have b0': "(pb AND 1 \<noteq> 0) = False" using b0 by simp
  have "ReadPacketHeader D pbytes = Some (s, a, ab, length h)"
    unfolding ReadPacketHeader_def Let_def
    apply (simp only: notmin r0 r1 r1' b0' fst_conv snd_conv if_False ackpart option.case prod.case
             enough s1 s2 s3 s4 acc plen)
    done
  then show ?thesis unfolding D_def pbytes_def h_def .
qed

lemma ack_tail_length: "length (ack_tail ab i) \<le> 1"
  by (simp add: ack_tail_def)

lemma WritePacketHeader_example:
  "WritePacketHeader 1000 990 0xFFFF00FF = [36, 232, 3, 10, 0]"
  by code_simp

text \<open>
  Claim C8: for every sequence, ack and ack bitmap, \<open>WritePacketHeader\<close> produces 4 to 9
  bytes, and \<open>ReadPacketHeader\<close> on those bytes (followed by any payload) returns the same
  three values and the header length.  The header is the prefix byte, the sequence in two
  bytes little-endian, the ack as the one-byte difference exactly when
  \<open>(sequence - ack) mod 65536 \<le> 255\<close> (prefix bit 5) and as two bytes otherwise, and byte
  \<open>i\<close> of the bitmap exactly when it is not all-ones (prefix bit \<open>i + 1\<close>); no other
  prefix bit is set.
\<close>

theorem packet_header_roundtrip:
  "4 \<le> length (WritePacketHeader s a ab) \<and> length (WritePacketHeader s a ab) \<le> 9 \<and>
   ReadPacketHeader (WritePacketHeader s a ab @ payload)
       (int (length (WritePacketHeader s a ab) + length payload)) =
     Some (s, a, ab, length (WritePacketHeader s a ab)) \<and>
   WritePacketHeader s a ab =
     [hd (WritePacketHeader s a ab), ucast s, ucast (drop_bit 8 s)] @
     (if unat (s - a) \<le> 255 then [ucast (s - a)] else [ucast a, ucast (drop_bit 8 a)]) @
     ack_tail ab 0 @ ack_tail ab 1 @ ack_tail ab 2 @ ack_tail ab 3 \<and>
   (\<forall>k. bit (hd (WritePacketHeader s a ab)) k =
      ((k = 5 \<and> unat (s - a) \<le> 255) \<or>
       (1 \<le> k \<and> k \<le> 4 \<and> ack_byte ab (k - 1) \<noteq> 0xFF)))"
proof -
  let ?h = "WritePacketHeader s a ab"
  have layout: "?h =
     [hd ?h, ucast s, ucast (drop_bit 8 s)] @
     (if unat (s - a) \<le> 255 then [ucast (s - a)] else [ucast a, ucast (drop_bit 8 a)]) @
     ack_tail ab 0 @ ack_tail ab 1 @ ack_tail ab 2 @ ack_tail ab 3"
    by (rule WritePacketHeader_layout)
  have "length ?h = 3 + (if unat (s - a) \<le> 255 then 1 else 2) +
      (length (ack_tail ab 0) + length (ack_tail ab 1) + length (ack_tail ab 2) +
       length (ack_tail ab 3))"
    by (subst layout) simp
  then have len: "4 \<le> length ?h \<and> length ?h \<le> 9"
    using ack_tail_length [of ab 0] ack_tail_length [of ab 1] ack_tail_length [of ab 2]
      ack_tail_length [of ab 3]
    by (simp split: if_splits)
  have rd: "ReadPacketHeader (?h @ payload) (int (length ?h + length payload)) =
     Some (s, a, ab, length ?h)"
    by (rule ReadPacketHeader_written)
  have bits: "\<forall>k. bit (hd ?h) k =
      ((k = 5 \<and> unat (s - a) \<le> 255) \<or>
       (1 \<le> k \<and> k \<le> 4 \<and> ack_byte ab (k - 1) \<noteq> 0xFF))"
    using WritePacketHeader_prefix [of s a ab] by blast
  show ?thesis using len rd layout bits by blast
qed

theorem packet_header_roundtrip_witness:
  "WritePacketHeader 1000 990 0xFFFF00FF = [36, 232, 3, 10, 0] \<and>
   ReadPacketHeader ([36, 232, 3, 10, 0] @ [1, 2, 3]) 8 = Some (1000, 990, 0xFFFF00FF, 5)"
proof -
  have "ReadPacketHeader (WritePacketHeader 1000 990 0xFFFF00FF @ [1, 2, 3])
       (int (length (WritePacketHeader 1000 990 0xFFFF00FF) + length [1, 2, 3 :: u8])) =
     Some (1000, 990, 0xFFFF00FF, length (WritePacketHeader 1000 990 0xFFFF00FF))"
    using packet_header_roundtrip [of 1000 990 "0xFFFF00FF" "[1, 2, 3]"] by blast
  then have "ReadPacketHeader ([36, 232, 3, 10, 0] @ [1, 2, 3]) 8 = Some (1000, 990, 0xFFFF00FF, 5)"
    unfolding WritePacketHeader_example by simp
  then show ?thesis using WritePacketHeader_example by blast
qed

section \<open>Unreliable-unordered channel counters\<close>

lemma uu_SendMessage_low_counters:
  "0 < c \<Longrightarrow> k < CHANNEL_COUNTER_NUMBER_OF_COUNTERS \<Longrightarrow>
   uu_counters_array (uu_SendMessage q ch c m) ! k = uu_counters_array ch ! k"
  by (simp add: uu_SendMessage_def Let_def CHANNEL_COUNTER_NUMBER_OF_COUNTERS_def
        CHANNEL_COUNTER_MESSAGES_SENT_def)

lemma uu_ReceiveMessage_low_counters:
  "0 < c \<Longrightarrow> k < CHANNEL_COUNTER_NUMBER_OF_COUNTERS \<Longrightarrow>
   uu_counters_array (fst (uu_ReceiveMessage ch c)) ! k = uu_counters_array ch ! k"
  by (simp add: uu_ReceiveMessage_def Let_def CHANNEL_COUNTER_NUMBER_OF_COUNTERS_def
        CHANNEL_COUNTER_MESSAGES_RECEIVED_def split: list.splits)

lemma uu_counter_index_in_range:
  assumes "uu_ok C ch" and "c < C" and "k < CHANNEL_COUNTER_NUMBER_OF_COUNTERS"
  shows "c * CHANNEL_COUNTER_NUMBER_OF_COUNTERS + k < length (uu_counters_array ch)"
proof -
  have "c * CHANNEL_COUNTER_NUMBER_OF_COUNTERS + k < (c + 1) * CHANNEL_COUNTER_NUMBER_OF_COUNTERS"
    using assms(3) by simp
  also have "\<dots> \<le> C * CHANNEL_COUNTER_NUMBER_OF_COUNTERS"
    using assms(2) by (intro mult_le_mono1) simp
  finally show ?thesis using assms(1) by (simp add: uu_ok_def mult.commute)
qed

lemma uu_SendMessage_flat_counter:
  assumes ok: "uu_ok C ch" and c: "c < C" and e: "uu_error_level ch ! c = ERROR_NONE"
    and room: "length (uu_message_send_queue ch ! c) < q"
  shows "uu_counters_array (uu_SendMessage q ch c m) !
           (c * CHANNEL_COUNTER_NUMBER_OF_COUNTERS + CHANNEL_COUNTER_MESSAGES_SENT) =
         uu_counters_array ch !
           (c * CHANNEL_COUNTER_NUMBER_OF_COUNTERS + CHANNEL_COUNTER_MESSAGES_SENT) + 1"
proof -
  have "CHANNEL_COUNTER_MESSAGES_SENT < CHANNEL_COUNTER_NUMBER_OF_COUNTERS"
    by (simp add: CHANNEL_COUNTER_MESSAGES_SENT_def CHANNEL_COUNTER_NUMBER_OF_COUNTERS_def)
  from uu_counter_index_in_range [OF ok c this] show ?thesis
    using e room by (simp add: uu_SendMessage_def Let_def)
qed

lemma uu_ReceiveMessage_flat_counter:
  assumes ok: "uu_ok C ch" and c: "c < C" and e: "uu_error_level ch ! c = ERROR_NONE"
    and some: "uu_message_receive_queue ch ! c \<noteq> []"
  shows "uu_counters_array (fst (uu_ReceiveMessage ch c)) !
           (c * CHANNEL_COUNTER_NUMBER_OF_COUNTERS + CHANNEL_COUNTER_MESSAGES_RECEIVED) =
         uu_counters_array ch !
           (c * CHANNEL_COUNTER_NUMBER_OF_COUNTERS + CHANNEL_COUNTER_MESSAGES_RECEIVED) + 1"
proof -
  have "CHANNEL_COUNTER_MESSAGES_RECEIVED < CHANNEL_COUNTER_NUMBER_OF_COUNTERS"
    by (simp add: CHANNEL_COUNTER_MESSAGES_RECEIVED_def CHANNEL_COUNTER_NUMBER_OF_COUNTERS_def)
  from uu_counter_index_in_range [OF ok c this] show ?thesis
    using e some by (simp add: uu_ReceiveMessage_def Let_def split: list.splits)
qed

text \<open>
  Claim C10: \<open>GetCounter(c, k)\<close> returns the value at flat index \<open>k\<close> of the counter
  array, the same for every connection \<open>c\<close>.  A successful \<open>SendMessage\<close> or
  \<open>ReceiveMessage\<close> on connection \<open>c\<close> adds one at flat index
  \<open>c * CHANNEL_COUNTER_NUMBER_OF_COUNTERS + k\<close>; for \<open>c > 0\<close> that index is never one
  that \<open>GetCounter\<close> reads, so no send or receive on connection \<open>c\<close> changes what
  \<open>GetCounter(c, _)\<close> reports.
\<close>

theorem uu_GetCounter_ignores_connection:
  "uu_GetCounter ch c k = uu_counters_array ch ! k \<and>
   uu_GetCounter ch c k = uu_GetCounter ch c' k \<and>
   (0 < c \<and> k < CHANNEL_COUNTER_NUMBER_OF_COUNTERS \<longrightarrow>
      uu_GetCounter (uu_SendMessage q ch c m) c k = uu_GetCounter ch c k \<and>
      uu_GetCounter (fst (uu_ReceiveMessage ch c)) c k = uu_GetCounter ch c k) \<and>
   (uu_ok C ch \<and> c < C \<and> uu_error_level ch ! c = ERROR_NONE \<and>
    length (uu_message_send_queue ch ! c) < q \<longrightarrow>
      uu_counters_array (uu_SendMessage q ch c m) !
        (c * CHANNEL_COUNTER_NUMBER_OF_COUNTERS + CHANNEL_COUNTER_MESSAGES_SENT) =
      uu_counters_array ch !
        (c * CHANNEL_COUNTER_NUMBER_OF_COUNTERS + CHANNEL_COUNTER_MESSAGES_SENT) + 1) \<and>
   (uu_ok C ch \<and> c < C \<and> uu_error_level ch ! c = ERROR_NONE \<and>
    uu_message_receive_queue ch ! c \<noteq> [] \<longrightarrow>
      uu_counters_array (fst (uu_ReceiveMessage ch c)) !
        (c * CHANNEL_COUNTER_NUMBER_OF_COUNTERS + CHANNEL_COUNTER_MESSAGES_RECEIVED) =
      uu_counters_array ch !
        (c * CHANNEL_COUNTER_NUMBER_OF_COUNTERS + CHANNEL_COUNTER_MESSAGES_RECEIVED) + 1)"
proof (intro conjI impI)
  show "uu_GetCounter ch c k = uu_counters_array ch ! k" by (simp add: uu_GetCounter_def)
  show "uu_GetCounter ch c k = uu_GetCounter ch c' k" by (simp add: uu_GetCounter_def)
  {
    assume h: "0 < c \<and> k < CHANNEL_COUNTER_NUMBER_OF_COUNTERS"
    then show "uu_GetCounter (uu_SendMessage q ch c m) c k = uu_GetCounter ch c k"
      by (simp add: uu_GetCounter_def uu_SendMessage_low_counters)
    from h show "uu_GetCounter (fst (uu_ReceiveMessage ch c)) c k = uu_GetCounter ch c k"
      by (simp add: uu_GetCounter_def uu_ReceiveMessage_low_counters)
  }
  {
    assume "uu_ok C ch \<and> c < C \<and> uu_error_level ch ! c = ERROR_NONE \<and>
      length (uu_message_send_queue ch ! c) < q"
    then show "uu_counters_array (uu_SendMessage q ch c m) !
        (c * CHANNEL_COUNTER_NUMBER_OF_COUNTERS + CHANNEL_COUNTER_MESSAGES_SENT) =
      uu_counters_array ch !
        (c * CHANNEL_COUNTER_NUMBER_OF_COUNTERS + CHANNEL_COUNTER_MESSAGES_SENT) + 1"
      using uu_SendMessage_flat_counter by blast
  }
  {
    assume "uu_ok C ch \<and> c < C \<and> uu_error_level ch ! c = ERROR_NONE \<and>
      uu_message_receive_queue ch ! c \<noteq> []"
    then show "uu_counters_array (fst (uu_ReceiveMessage ch c)) !
        (c * CHANNEL_COUNTER_NUMBER_OF_COUNTERS + CHANNEL_COUNTER_MESSAGES_RECEIVED) =
      uu_counters_array ch !
        (c * CHANNEL_COUNTER_NUMBER_OF_COUNTERS + CHANNEL_COUNTER_MESSAGES_RECEIVED) + 1"
      using uu_ReceiveMessage_flat_counter by blast
  }
qed


theorem uu_GetCounter_ignores_connection_witness:
  "(0::nat) < 1 \<and> CHANNEL_COUNTER_MESSAGES_SENT < CHANNEL_COUNTER_NUMBER_OF_COUNTERS \<and>
   CHANNEL_COUNTER_MESSAGES_RECEIVED < CHANNEL_COUNTER_NUMBER_OF_COUNTERS \<and>
   uu_ok 2 uu_example \<and> uu_ok 2 uu_example_received \<and> (1::nat) < 2 \<and>
   uu_error_level uu_example ! 1 = ERROR_NONE \<and>
   uu_error_level uu_example_received ! 1 = ERROR_NONE \<and>
   length (uu_message_send_queue uu_example ! 1) < 4 \<and>
   uu_message_receive_queue uu_example_received ! 1 \<noteq> [] \<and>
   uu_counters_array (uu_SendMessage 4 uu_example 1 message_example) ! 2 = 1 \<and>
   uu_GetCounter (uu_SendMessage 4 uu_example 1 message_example) 1
     CHANNEL_COUNTER_MESSAGES_SENT = 0 \<and>
   uu_counters_array (fst (uu_ReceiveMessage uu_example_received 1)) ! 3 = 1 \<and>
   uu_GetCounter (fst (uu_ReceiveMessage uu_example_received 1)) 1
     CHANNEL_COUNTER_MESSAGES_RECEIVED = 0"
proof -
  have k1: "CHANNEL_COUNTER_MESSAGES_SENT < CHANNEL_COUNTER_NUMBER_OF_COUNTERS"
    and k2: "CHANNEL_COUNTER_MESSAGES_RECEIVED < CHANNEL_COUNTER_NUMBER_OF_COUNTERS"
    by (simp_all add: CHANNEL_COUNTER_MESSAGES_SENT_def CHANNEL_COUNTER_MESSAGES_RECEIVED_def
          CHANNEL_COUNTER_NUMBER_OF_COUNTERS_def)
  have ok1: "uu_ok 2 uu_example" and ok2: "uu_ok 2 uu_example_received"
    by (simp_all add: uu_ok_def uu_example_def uu_example_received_def
          CHANNEL_COUNTER_NUMBER_OF_COUNTERS_def)
  have e1: "uu_error_level uu_example ! 1 = ERROR_NONE"
    and e2: "uu_error_level uu_example_received ! 1 = ERROR_NONE"
    and q1: "length (uu_message_send_queue uu_example ! 1) < 4"
    and q2: "uu_message_receive_queue uu_example_received ! 1 \<noteq> []"
    by (simp_all add: uu_example_def uu_example_received_def)
  have c0: "(0::nat) < 1" and c1: "(1::nat) < 2" by simp_all
  have i1: "1 * CHANNEL_COUNTER_NUMBER_OF_COUNTERS + CHANNEL_COUNTER_MESSAGES_SENT = 2"
    and i2: "1 * CHANNEL_COUNTER_NUMBER_OF_COUNTERS + CHANNEL_COUNTER_MESSAGES_RECEIVED = 3"
    by (simp_all add: CHANNEL_COUNTER_MESSAGES_SENT_def CHANNEL_COUNTER_MESSAGES_RECEIVED_def
          CHANNEL_COUNTER_NUMBER_OF_COUNTERS_def)
  have v1: "uu_counters_array uu_example ! 2 = 0"
    and v2: "uu_counters_array uu_example_received ! 3 = 0"
    and g1: "uu_GetCounter uu_example 1 CHANNEL_COUNTER_MESSAGES_SENT = 0"
    and g2: "uu_GetCounter uu_example_received 1 CHANNEL_COUNTER_MESSAGES_RECEIVED = 0"
    by (simp_all add: uu_example_def uu_example_received_def uu_GetCounter_def
          CHANNEL_COUNTER_MESSAGES_SENT_def CHANNEL_COUNTER_MESSAGES_RECEIVED_def)
  note A = uu_GetCounter_ignores_connection
             [of uu_example 1 CHANNEL_COUNTER_MESSAGES_SENT 1 4 message_example 2]
  note B = uu_GetCounter_ignores_connection
             [of uu_example_received 1 CHANNEL_COUNTER_MESSAGES_RECEIVED 1 4 message_example 2]
  have A1: "uu_GetCounter (uu_SendMessage 4 uu_example 1 message_example) 1
              CHANNEL_COUNTER_MESSAGES_SENT =
            uu_GetCounter uu_example 1 CHANNEL_COUNTER_MESSAGES_SENT"
    using A c0 k1 by blast
  have A2: "uu_counters_array (uu_SendMessage 4 uu_example 1 message_example) !
        (1 * CHANNEL_COUNTER_NUMBER_OF_COUNTERS + CHANNEL_COUNTER_MESSAGES_SENT) =
      uu_counters_array uu_example !
        (1 * CHANNEL_COUNTER_NUMBER_OF_COUNTERS + CHANNEL_COUNTER_MESSAGES_SENT) + 1"
    using A ok1 c1 e1 q1 by blast
  have B1: "uu_GetCounter (fst (uu_ReceiveMessage uu_example_received 1)) 1
              CHANNEL_COUNTER_MESSAGES_RECEIVED =
            uu_GetCounter uu_example_received 1 CHANNEL_COUNTER_MESSAGES_RECEIVED"
    using B c0 k2 by blast
  have B2: "uu_counters_array (fst (uu_ReceiveMessage uu_example_received 1)) !
        (1 * CHANNEL_COUNTER_NUMBER_OF_COUNTERS + CHANNEL_COUNTER_MESSAGES_RECEIVED) =
      uu_counters_array uu_example_received !
        (1 * CHANNEL_COUNTER_NUMBER_OF_COUNTERS + CHANNEL_COUNTER_MESSAGES_RECEIVED) + 1"
    using B ok2 c1 e2 q2 by blast
  have A2': "uu_counters_array (uu_SendMessage 4 uu_example 1 message_example) ! 2 = 1"
    using A2 unfolding i1 v1 by simp
  have B2': "uu_counters_array (fst (uu_ReceiveMessage uu_example_received 1)) ! 3 = 1"
    using B2 unfolding i2 v2 by simp
  show ?thesis
    using c0 k1 k2 ok1 ok2 c1 e1 e2 q1 q2 A2' B2' A1 B1 g1 g2 by simp
qed

section \<open>Byte strings through the bit writer and reader\<close>

text \<open>
  Claim C3 fails on the code.  Four bytes written at bit position 0 take the word-wise
  path: the writer copies them to \<open>m_data[m_32_bit_int_index]\<close>, which is word 0, and
  the buffer then holds them; the reader copies from
  \<open>m_bitpacked_data[number_of_32_bit_integers]\<close>, which is word 1, and returns four zero
  bytes.  A three-byte string, which stays on the byte-wise path, comes back intact.
\<close>

theorem ReadBytes_word_copy_mismatch:
  "written_buffer 2 [0xDE, 0xAD, 0xBE, 0xEF] = [0xEFBEADDE, 0] \<and>
   bytes_roundtrip 2 [0xDE, 0xAD, 0xBE, 0xEF] = [0, 0, 0, 0] \<and>
   bytes_roundtrip 2 [0xDE, 0xAD, 0xBE, 0xEF] \<noteq> [0xDE, 0xAD, 0xBE, 0xEF] \<and>
   bytes_roundtrip 2 [0xDE, 0xAD, 0xBE] = [0xDE, 0xAD, 0xBE]"
  by code_simp

end
